theory Spec2Isabelle
  imports Main "HOL-Library.Multiset"
begin

section \<open>The centy installer: shell script and npm wrapper\<close>

text \<open>
  The repository holds three programs: the POSIX shell installer \<^verbatim>\<open>install.sh\<close> (two
  revisions of it are in the sources: the single-format one, lines 1-395, and the
  multi-format one, lines 397-853, which is the one modelled in full), the Node installer
  \<^verbatim>\<open>scripts/install.js\<close>, and the npm bin wrapper that starts the centy binary.

  Shell values are strings. A shell function becomes a HOL function over an explicit
  state (file system, temporary directories, the EXIT trap, the lines printed, the
  requests sent) and an environment (host facts, variables, the network, and the tools
  whose output the script only passes on). A function that returns a status returns it
  as a number, 0 for success.
\<close>

subsection \<open>Strings\<close>

text \<open>The shell pattern \<^verbatim>\<open>p*\<close> of a \<^verbatim>\<open>case\<close>: the word starts with \<open>p\<close>.\<close>

fun starts_with :: "string \<Rightarrow> string \<Rightarrow> bool" where
  "starts_with [] s = True"
| "starts_with (a # p) [] = False"
| "starts_with (a # p) (c # s) = (a = c \<and> starts_with p s)"

text \<open>The shell pattern \<^verbatim>\<open>*p*\<close>: \<open>p\<close> occurs somewhere in the word.\<close>

fun contains :: "string \<Rightarrow> string \<Rightarrow> bool" where
  "contains p [] = (p = [])"
| "contains p (c # s) = (starts_with p (c # s) \<or> contains p s)"

subsection \<open>Version strings (install\_binary, lines 622-630)\<close>

text \<open>
  \<^verbatim>\<open>case "$version" in v*) ;; *) version="v${version}" ;; esac\<close>: the form used in
  download URLs always carries the marker \<open>v\<close>.
\<close>

definition version_url :: "string \<Rightarrow> string" where
  "version_url version = (if starts_with ''v'' version then version else ''v'' @ version)"

text \<open>
  \<^verbatim>\<open>s/^v//\<close> on one line of text: one leading \<open>v\<close> is removed, if there is one.
\<close>

fun sed_strip_v :: "string \<Rightarrow> string" where
  "sed_strip_v [] = []"
| "sed_strip_v (c # s) = (if c = CHR ''v'' then s else c # s)"

text \<open>
  Field splitting of an unquoted \<^verbatim>\<open>$BINARIES\<close> in \<^verbatim>\<open>for binary in $BINARIES\<close>: the
  words between blanks, tabs and newlines. (Pathname expansion of the words is not
  modelled: a binary name holds no \<^verbatim>\<open>*\<close>, \<^verbatim>\<open>?\<close> or \<^verbatim>\<open>[\<close>.)
\<close>

definition is_ifs :: "char \<Rightarrow> bool" where
  "is_ifs c = (c = CHR '' '' \<or> c = CHR 0x09 \<or> c = CHR 0x0A)"

fun words_acc :: "string \<Rightarrow> string \<Rightarrow> string list" where
  "words_acc w [] = (if w = [] then [] else [w])"
| "words_acc w (c # s) =
     (if is_ifs c then (if w = [] then words_acc [] s else w # words_acc [] s)
      else words_acc (w @ [c]) s)"

definition words :: "string \<Rightarrow> string list" where
  "words s = words_acc [] s"

text \<open>The lines of a text file, as \<^verbatim>\<open>grep\<close> reads them.\<close>

fun lines_acc :: "string \<Rightarrow> string \<Rightarrow> string list" where
  "lines_acc l [] = (if l = [] then [] else [l])"
| "lines_acc l (c # s) =
     (if c = CHR 0x0A then l # lines_acc [] s else lines_acc (l @ [c]) s)"

definition lines_of :: "string \<Rightarrow> string list" where
  "lines_of s = lines_acc [] s"

text \<open>\<^verbatim>\<open>basename\<close>: trailing slashes dropped, then the part after the last slash.\<close>

definition basename :: "string \<Rightarrow> string" where
  "basename s =
     (let t = rev (dropWhile (\<lambda>c. c = CHR ''/'') (rev s))
      in if t = [] then (if s = [] then [] else ''/'')
         else rev (takeWhile (\<lambda>c. c \<noteq> CHR ''/'') (rev t)))"

definition dq :: string where
  "dq = [CHR 0x22]"

definition nl :: string where
  "nl = [CHR 0x0A]"

text \<open>
  \<^verbatim>\<open>sed 's/^v//'\<close> on its input: the substitution is made on every line, and every line
  is printed with its newline.
\<close>

definition sed_s_v :: "string \<Rightarrow> string" where
  "sed_s_v input = concat (map (\<lambda>l. sed_strip_v l @ nl) (lines_of input))"

text \<open>The text a command substitution \<^verbatim>\<open>$(...)\<close> yields: the output without its trailing newlines.\<close>

definition strip_newlines :: "string \<Rightarrow> string" where
  "strip_newlines s = rev (dropWhile (\<lambda>c. c = CHR 0x0A) (rev s))"

subsection \<open>The file system\<close>

text \<open>
  A path is the string the script builds. A path holds a regular file (its content and
  whether it is executable) or a symbolic link (the text \<^verbatim>\<open>ln -s\<close> stored). The
  directories of the installation are implicit: \<^verbatim>\<open>mkdir -p\<close> has made them, and \<^verbatim>\<open>mv\<close>,
  \<^verbatim>\<open>chmod\<close>, \<^verbatim>\<open>rm\<close> and \<^verbatim>\<open>ln\<close> succeed whenever their operand exists. The directory of
  the shell configuration file is not made by the script; whether a redirection to that
  file can open it is a fact of the environment (\<open>can_write\<close> below).
\<close>

datatype node = File string bool | Symlink string

type_synonym files = "string \<Rightarrow> node option"

definition is_file :: "files \<Rightarrow> string \<Rightarrow> bool" where
  "is_file f p = (case f p of Some (File c x) \<Rightarrow> True | _ \<Rightarrow> False)"

definition is_link :: "files \<Rightarrow> string \<Rightarrow> bool" where
  "is_link f p = (case f p of Some (Symlink t) \<Rightarrow> True | _ \<Rightarrow> False)"

text \<open>
  What the operating system does with a symbolic link: a target that does not start with
  a slash is read from the directory that holds the link. Links are followed at most 40
  times.
\<close>

definition link_dest :: "string \<Rightarrow> string \<Rightarrow> string" where
  "link_dest link target =
     (if starts_with ''/'' target then target
      else rev (dropWhile (\<lambda>c. c \<noteq> CHR ''/'') (rev link)) @ target)"

fun follow :: "files \<Rightarrow> nat \<Rightarrow> string \<Rightarrow> node option" where
  "follow f 0 p = (case f p of Some (Symlink t) \<Rightarrow> None | r \<Rightarrow> r)"
| "follow f (Suc n) p =
     (case f p of Some (Symlink t) \<Rightarrow> follow f n (link_dest p t) | r \<Rightarrow> r)"

text \<open>The path is a symbolic link that leads to an existing executable regular file.\<close>

definition links_to_executable :: "files \<Rightarrow> string \<Rightarrow> bool" where
  "links_to_executable f p =
     (is_link f p \<and> (case follow f 40 p of Some (File c x) \<Rightarrow> x | _ \<Rightarrow> False))"

text \<open>
  A temporary directory made by \<^verbatim>\<open>mktemp -d\<close>: its regular files, each under its path
  below the directory (the list of its components), in the order \<^verbatim>\<open>find\<close> lists them.
\<close>

type_synonym tmpdir = "(string list \<times> string) list"

subsection \<open>Basic regular expressions (grep)\<close>

text \<open>
  \<^verbatim>\<open>grep -q PATTERN FILE\<close> reads the pattern as a basic regular expression. The fragment
  modelled: ordinary characters, \<^verbatim>\<open>.\<close>, a bracket expression that lists plain characters,
  \<^verbatim>\<open>*\<close> after one of these (a \<^verbatim>\<open>*\<close> that starts the expression is ordinary), \<^verbatim>\<open>^\<close> as the
  first and \<^verbatim>\<open>$\<close> as the last character. For any other pattern (a backslash, another
  form of bracket expression, a newline, two stars in a row) grep's verdict is taken from
  the environment.
\<close>

datatype cls = Ch char | Dot | Set "char list"

datatype item = One cls | Many cls

fun cls_ok :: "cls \<Rightarrow> char \<Rightarrow> bool" where
  "cls_ok (Ch a) c = (a = c)"
| "cls_ok Dot c = True"
| "cls_ok (Set as) c = (c \<in> set as)"

definition bre_special :: "char \<Rightarrow> bool" where
  "bre_special c = (c = CHR ''['' \<or> c = CHR '']'' \<or> c = CHR 0x5C \<or> c = CHR 0x0A)"

text \<open>
  One atom at the head of the pattern and the rest of the pattern: a listed set
  \<^verbatim>\<open>[abc]\<close> (no \<^verbatim>\<open>^\<close>, \<^verbatim>\<open>-\<close> or nested bracket), \<^verbatim>\<open>.\<close>, or an ordinary character.
\<close>

definition bre_atom :: "string \<Rightarrow> (cls \<times> string) option" where
  "bre_atom p =
     (case p of
        [] \<Rightarrow> None
      | c # s \<Rightarrow>
          if c = CHR ''['' then
            (let as = takeWhile (\<lambda>x. x \<noteq> CHR '']'') s;
                 r = dropWhile (\<lambda>x. x \<noteq> CHR '']'') s
             in if as = [] \<or> r = [] \<or> list_ex bre_special as
                   \<or> list_ex (\<lambda>x. x = CHR ''^'' \<or> x = CHR ''-'') as
                then None else Some (Set as, tl r))
          else if bre_special c then None
          else if c = CHR ''.'' then Some (Dot, s)
          else Some (Ch c, s))"

lemma bre_atom_shorter: "bre_atom p = Some (a, r) \<Longrightarrow> length r < length p"
proof (cases p)
  case Nil
  assume "bre_atom p = Some (a, r)"
  with Nil show ?thesis by (simp add: bre_atom_def)
next
  case (Cons c s)
  assume h: "bre_atom p = Some (a, r)"
  have "length (dropWhile (\<lambda>x. x \<noteq> CHR '']'') s) \<le> length s"
    by (rule length_dropWhile_le)
  then have "length (tl (dropWhile (\<lambda>x. x \<noteq> CHR '']'') s)) \<le> length s"
    by simp
  with h Cons show ?thesis
    by (auto simp: bre_atom_def Let_def split: if_splits)
qed

function bre_items :: "string \<Rightarrow> item list option" where
  "bre_items p =
     (if p = [] then Some []
      else case bre_atom p of
        None \<Rightarrow> None
      | Some (a, r) \<Rightarrow>
          (case r of
             [] \<Rightarrow> Some [One a]
           | d # r' \<Rightarrow>
               if d = CHR ''*'' then
                 (if starts_with ''*'' r' then None
                  else map_option (Cons (Many a)) (bre_items r'))
               else map_option (Cons (One a)) (bre_items r)))"
  by pat_completeness auto
termination
proof (relation "measure length")
  show "wf (measure length)" by simp
next
  fix p x2 a r d r'
  assume "bre_atom p = Some x2" "(a, r) = x2" "r = d # r'"
  then have "length r < length p" using bre_atom_shorter [of p a r] by simp
  with \<open>r = d # r'\<close> show "(r', p) \<in> measure length" by simp
next
  fix p x2 a r d r'
  assume "bre_atom p = Some x2" "(a, r) = x2" "r = d # r'"
  then have "length r < length p" using bre_atom_shorter [of p a r] by simp
  then show "(r, p) \<in> measure length" by simp
qed

definition bre_parse :: "string \<Rightarrow> (bool \<times> bool \<times> item list) option" where
  "bre_parse p =
     (let a = starts_with ''^'' p \<and> p \<noteq> [];
          p1 = (if a then tl p else p);
          z = (p1 \<noteq> [] \<and> last p1 = CHR ''$'');
          p2 = (if z then butlast p1 else p1)
      in map_option (\<lambda>its. (a, z, its)) (bre_items p2))"

fun bre_here :: "item list \<Rightarrow> bool \<Rightarrow> string \<Rightarrow> bool" where
  "bre_here [] z s = (if z then s = [] else True)"
| "bre_here (One a # r) z [] = False"
| "bre_here (One a # r) z (c # s) = (cls_ok a c \<and> bre_here r z s)"
| "bre_here (Many a # r) z [] = bre_here r z []"
| "bre_here (Many a # r) z (c # s) =
     (bre_here r z (c # s) \<or> (cls_ok a c \<and> bre_here (Many a # r) z s))"

fun bre_search :: "item list \<Rightarrow> bool \<Rightarrow> string \<Rightarrow> bool" where
  "bre_search its z [] = bre_here its z []"
| "bre_search its z (c # s) = (bre_here its z (c # s) \<or> bre_search its z s)"

definition grep_line :: "bool \<times> bool \<times> item list \<Rightarrow> string \<Rightarrow> bool" where
  "grep_line re l = (case re of (a, z, its) \<Rightarrow> if a then bre_here its z l else bre_search its z l)"

subsection \<open>Environment and state of a run of install.sh\<close>

text \<open>
  The environment: what \<^verbatim>\<open>uname\<close> prints, which tools \<^verbatim>\<open>command -v\<close> finds, the
  variables the script reads (an unset variable reads as the empty string), and the
  outside world: \<open>net\<close> is a download by curl or wget (the tool, the URL; the body when
  the tool ends with status 0), \<open>sed_tag_name\<close> is what the command substitution
  \<^verbatim>\<open>$(echo "$response" | sed -n 's/.*"tag_name"...\([^"]*\)".*/\1/p' | head -1)\<close> yields for
  a response, \<open>untar\<close> and \<open>unzip\<close> give the regular files an archive unpacks to (nothing
  when the tool fails), \<open>grep_other\<close> is \<^verbatim>\<open>grep -q\<close> for a pattern outside the fragment of
  regular expressions modelled here.

  Three fields are the shell that runs the script and the permissions it runs with.
  \<open>echo_special\<close> is what its \<^verbatim>\<open>echo\<close> prints for an operand that holds a backslash or
  starts with a hyphen, which POSIX leaves to the implementation (dash expands
  \<^verbatim>\<open>\t\<close>, bash prints it as it is). \<open>can_write\<close> tells whether a redirection \<^verbatim>\<open>>\<close> or \<^verbatim>\<open>>>\<close>
  can open a path: the directory of the file is there and the file may be written.
  \<open>sh_redirect_status\<close> is the status of a command whose redirection failed (2 in dash,
  1 in bash).
\<close>

record env =
  uname_s :: string
  uname_m :: string
  has_curl :: bool
  has_wget :: bool
  has_tar :: bool
  var_HOME :: string
  var_SHELL :: string
  var_PATH :: string
  var_INSTALL_DIR :: string
  var_VERSION :: string
  var_BINARIES :: string
  net :: "string \<Rightarrow> string \<Rightarrow> string option"
  sed_tag_name :: "string \<Rightarrow> string"
  untar :: "string \<Rightarrow> tmpdir option"
  unzip :: "string \<Rightarrow> tmpdir option"
  grep_other :: "string \<Rightarrow> string \<Rightarrow> bool"
  echo_special :: "string \<Rightarrow> string"
  can_write :: "string \<Rightarrow> bool"
  sh_redirect_status :: nat

text \<open>What the print functions \<^verbatim>\<open>info\<close>, \<^verbatim>\<open>success\<close>, \<^verbatim>\<open>warn\<close>, \<^verbatim>\<open>error\<close> and a plain \<^verbatim>\<open>echo\<close> print.\<close>

datatype line = Info string | Success string | Warn string | Error string | Echo string

text \<open>
  The state: the file system, the temporary directories that exist (numbered in the
  order \<^verbatim>\<open>mktemp -d\<close> made them), the directory named by the command of the one EXIT
  trap of the shell (\<^verbatim>\<open>trap "rm -rf '$tmp_dir'" EXIT\<close> replaces the trap set before), the
  lines printed, and the URLs requested.
\<close>

record state =
  fs :: files
  tmps :: "nat \<Rightarrow> tmpdir option"
  next_tmp :: nat
  trap :: "nat option"
  out :: "line list"
  requests :: "string list"

definition say :: "line \<Rightarrow> state \<Rightarrow> state" where
  "say l st = st\<lparr>out := out st @ [l]\<rparr>"

text \<open>\<^verbatim>\<open>echo "$x"\<close>: the operand and a newline, where POSIX says what is printed.\<close>

definition sh_echo :: "env \<Rightarrow> string \<Rightarrow> string" where
  "sh_echo e x =
     (if CHR 0x5C \<in> set x \<or> starts_with ''-'' x then echo_special e x else x @ nl)"

subsection \<open>Configuration (lines 415-425)\<close>

definition GITHUB_ORG :: string where
  "GITHUB_ORG = ''centy-io''"

definition DEFAULT_INSTALL_DIR :: "env \<Rightarrow> string" where
  "DEFAULT_INSTALL_DIR e = var_HOME e @ ''/.centy''"

text \<open>\<^verbatim>\<open>INSTALL_DIR="${INSTALL_DIR:-$DEFAULT_INSTALL_DIR}"\<close>\<close>

definition INSTALL_DIR :: "env \<Rightarrow> string" where
  "INSTALL_DIR e = (if var_INSTALL_DIR e = [] then DEFAULT_INSTALL_DIR e else var_INSTALL_DIR e)"

definition BIN_DIR :: "env \<Rightarrow> string" where
  "BIN_DIR e = INSTALL_DIR e @ ''/bin''"

definition VERSIONS_DIR :: "env \<Rightarrow> string" where
  "VERSIONS_DIR e = INSTALL_DIR e @ ''/versions''"

definition DEFAULT_BINARIES :: string where
  "DEFAULT_BINARIES = ''centy-daemon centy-tui''"

definition BINARIES :: "env \<Rightarrow> string" where
  "BINARIES e = (if var_BINARIES e = [] then DEFAULT_BINARIES else var_BINARIES e)"

subsection \<open>Platform detection (lines 444-512)\<close>

text \<open>
  Each function prints its result (\<open>Inr\<close>), or prints an error and leaves with
  \<^verbatim>\<open>exit 1\<close> (\<open>Inl\<close>, the line printed). The script calls them only inside \<^verbatim>\<open>$(...)\<close>,
  where the exit ends the subshell and not the script.
\<close>

definition detect_os :: "env \<Rightarrow> line + string" where
  "detect_os e =
     (if starts_with ''Darwin'' (uname_s e) then Inr ''apple-darwin''
      else if starts_with ''Linux'' (uname_s e) then Inr ''unknown-linux-gnu''
      else if starts_with ''MINGW'' (uname_s e) \<or> starts_with ''MSYS'' (uname_s e)
              \<or> starts_with ''CYGWIN'' (uname_s e) then Inr ''pc-windows-msvc''
      else Inl (Error (''Unsupported operating system: '' @ uname_s e)))"

definition detect_os_legacy :: "env \<Rightarrow> line + string" where
  "detect_os_legacy e =
     (if starts_with ''Darwin'' (uname_s e) then Inr ''darwin''
      else if starts_with ''Linux'' (uname_s e) then Inr ''linux''
      else if starts_with ''MINGW'' (uname_s e) \<or> starts_with ''MSYS'' (uname_s e)
              \<or> starts_with ''CYGWIN'' (uname_s e) then Inr ''windows''
      else Inl (Error (''Unsupported operating system: '' @ uname_s e)))"

definition detect_arch :: "env \<Rightarrow> line + string" where
  "detect_arch e =
     (if uname_m e = ''x86_64'' \<or> uname_m e = ''amd64'' then Inr ''x86_64''
      else if uname_m e = ''aarch64'' \<or> uname_m e = ''arm64'' then Inr ''aarch64''
      else if uname_m e = ''armv7l'' then Inr ''armv7''
      else Inl (Error (''Unsupported architecture: '' @ uname_m e)))"

definition get_archive_ext :: "string \<Rightarrow> string" where
  "get_archive_ext os = (if os = ''pc-windows-msvc'' then ''zip'' else ''tar.gz'')"

text \<open>
  \<^verbatim>\<open>x=$(detect_...)\<close>: the variable gets what was printed, which is nothing when the
  function left with \<^verbatim>\<open>exit 1\<close>; the error message goes to the terminal, and the script
  goes on, since the status of the assignment is not looked at where \<^verbatim>\<open>set -e\<close> is off
  (see \<open>install_binary\<close>).
\<close>

definition captured :: "line + string \<Rightarrow> string" where
  "captured r = (case r of Inl l \<Rightarrow> [] | Inr s \<Rightarrow> s)"

definition subst :: "line + string \<Rightarrow> state \<Rightarrow> string \<times> state" where
  "subst r st = (captured r, case r of Inl l \<Rightarrow> say l st | Inr s \<Rightarrow> st)"

subsection \<open>Requirements (lines 514-530)\<close>

text \<open>The result is the value of \<^verbatim>\<open>DOWNLOAD_CMD\<close>, or \<open>None\<close> when the script left with \<^verbatim>\<open>exit 1\<close>.\<close>

definition check_requirements :: "env \<Rightarrow> state \<Rightarrow> string option \<times> state" where
  "check_requirements e st =
     (case (if has_curl e then Some ''curl'' else if has_wget e then Some ''wget'' else None) of
        None \<Rightarrow> (None, say (Error ''Either curl or wget is required'') st)
      | Some cmd \<Rightarrow>
          if has_tar e then (Some cmd, st)
          else (None, say (Error ''tar is required for extraction'') st))"

subsection \<open>Downloads (lines 532-608)\<close>

text \<open>
  \<^verbatim>\<open>get_latest_version\<close>: the tag of the latest release, or status 1 (\<open>None\<close>). The request
  is \<^verbatim>\<open>fetch_json\<close>, that is \<^verbatim>\<open>curl -fsSL\<close> or \<^verbatim>\<open>wget -q -O -\<close>. The function prints
  the tag with \<^verbatim>\<open>echo "$version"\<close>, and the caller reads it with \<^verbatim>\<open>$(...)\<close>.
\<close>

definition get_latest_version :: "env \<Rightarrow> string \<Rightarrow> string \<Rightarrow> state \<Rightarrow> string option \<times> state" where
  "get_latest_version e cmd repo st =
     (let api_url = ''https://api.github.com/repos/'' @ GITHUB_ORG @ ''/'' @ repo @ ''/releases/latest'';
          st1 = st\<lparr>requests := requests st @ [api_url]\<rparr>
      in case net e cmd api_url of
           None \<Rightarrow>
             (None, say (Error (''Failed to fetch release info for '' @ repo
                                @ '' (repo may not exist or have no releases)'')) st1)
         | Some response \<Rightarrow>
             (let version = sed_tag_name e response
              in if version = [] then
                   (None, say (Error (''Could not determine latest version for '' @ repo
                                      @ '' (no releases found)'')) st1)
                 else (Some (strip_newlines (sh_echo e version)), st1)))"

definition put_tmp :: "nat \<Rightarrow> string list \<Rightarrow> string \<Rightarrow> state \<Rightarrow> state" where
  "put_tmp d p body st =
     st\<lparr>tmps := (tmps st)(d := Some ((p, body) # filter (\<lambda>x. fst x \<noteq> p) (case tmps st d of None \<Rightarrow> [] | Some fl \<Rightarrow> fl)))\<rparr>"

text \<open>
  \<^verbatim>\<open>try_download url output\<close>: status 0 (\<open>True\<close>) when the tool fetched the URL into the
  file \<open>output\<close> of the temporary directory; its error output is discarded.
\<close>

definition try_download :: "env \<Rightarrow> string \<Rightarrow> string \<Rightarrow> nat \<Rightarrow> string list \<Rightarrow> state \<Rightarrow> bool \<times> state" where
  "try_download e cmd url d output st =
     (let st1 = st\<lparr>requests := requests st @ [url]\<rparr>
      in case net e cmd url of
           None \<Rightarrow> (False, st1)
         | Some body \<Rightarrow> (True, put_tmp d output body st1))"

text \<open>
  \<^verbatim>\<open>extract_archive archive dest_dir ext\<close>: the files of the archive land in the temporary
  directory; status 1 when the tool fails or the format is unknown.
\<close>

definition extract_archive :: "env \<Rightarrow> string list \<Rightarrow> nat \<Rightarrow> string \<Rightarrow> state \<Rightarrow> bool \<times> state" where
  "extract_archive e archive d ext st =
     (let fl = (case tmps st d of None \<Rightarrow> [] | Some fl \<Rightarrow> fl);
          unpacked =
            (case map_of fl archive of
               None \<Rightarrow> None
             | Some payload \<Rightarrow>
                 if ext = ''tar.gz'' then untar e payload
                 else if ext = ''zip'' then unzip e payload
                 else None)
      in case unpacked of
           None \<Rightarrow>
             (False, if ext = ''tar.gz'' \<or> ext = ''zip'' then st
                     else say (Error (''Unknown archive format: '' @ ext)) st)
         | Some new \<Rightarrow>
             (True, st\<lparr>tmps := (tmps st)(d := Some (new @ filter (\<lambda>x. fst x \<notin> set (map fst new)) fl))\<rparr>))"

subsection \<open>Installing one binary (lines 610-730)\<close>

text \<open>
  \<open>install_binary\<close> runs as the condition of an \<^verbatim>\<open>if\<close> of \<open>main\<close>, so \<^verbatim>\<open>set -e\<close> is off
  inside it: only its own \<^verbatim>\<open>return\<close> ends it early. It is modelled in the order of the
  source, one definition for each block of the function.

  Lines 617-620: the version given, or the latest one.
\<close>

definition resolve_version :: "env \<Rightarrow> string \<Rightarrow> string \<Rightarrow> string \<Rightarrow> state \<Rightarrow> string option \<times> state" where
  "resolve_version e cmd binary version st =
     (if version = [] then get_latest_version e cmd binary st else (Some version, st))"

text \<open>Lines 637-639: \<^verbatim>\<open>tmp_dir=$(mktemp -d)\<close> and \<^verbatim>\<open>trap "rm -rf '$tmp_dir'" EXIT\<close>.\<close>

definition mktemp_d :: "state \<Rightarrow> nat \<times> state" where
  "mktemp_d st = (next_tmp st, st\<lparr>tmps := (tmps st)(next_tmp st := Some []), next_tmp := Suc (next_tmp st)\<rparr>)"

definition trap_rm_rf :: "nat \<Rightarrow> state \<Rightarrow> state" where
  "trap_rm_rf d st = st\<lparr>trap := Some d\<rparr>"

text \<open>The URL of a release asset.\<close>

definition asset_url :: "string \<Rightarrow> string \<Rightarrow> string \<Rightarrow> string" where
  "asset_url binary version name =
     ''https://github.com/'' @ GITHUB_ORG @ ''/'' @ binary @ ''/releases/download/'' @ version @ ''/'' @ name"

text \<open>
  Lines 647-685: the three download formats. The result is the pair of the flags
  \<^verbatim>\<open>downloaded\<close> and \<^verbatim>\<open>is_archive\<close>.
\<close>

definition download_formats ::
  "env \<Rightarrow> string \<Rightarrow> string \<Rightarrow> string \<Rightarrow> string \<Rightarrow> string \<Rightarrow> string \<Rightarrow> string \<Rightarrow> nat \<Rightarrow> state
     \<Rightarrow> (bool \<times> bool) \<times> state" where
  "download_formats e cmd binary version os os_legacy arch ext d st0 =
     (let \<comment> \<open>Format 1: New format with archive\<close>
          name1 = binary @ ''-'' @ version @ ''-'' @ arch @ ''-'' @ os @ ''.'' @ ext;
          st1 = say (Info (''  Trying: '' @ name1)) st0;
          (ok1, st2) = try_download e cmd (asset_url binary version name1) d [''download.'' @ ext] st1;
          (downloaded1, is_archive1) = (if ok1 then (True, True) else (False, False));
          \<comment> \<open>Format 2: Legacy format raw binary\<close>
          ((downloaded2, is_archive2), st4) =
            (if \<not> downloaded1 then
               (let name2 = binary @ ''-'' @ os_legacy @ ''-'' @ arch;
                    st3 = say (Info (''  Trying: '' @ name2)) st2;
                    (ok2, st4) = try_download e cmd (asset_url binary version name2) d [binary] st3
                in ((if ok2 then (True, False) else (downloaded1, is_archive1)), st4))
             else ((downloaded1, is_archive1), st2));
          \<comment> \<open>Format 3: Legacy with .exe for Windows\<close>
          ((downloaded3, is_archive3), st6) =
            (if \<not> downloaded2 \<and> os_legacy = ''windows'' then
               (let name3 = binary @ ''-'' @ os_legacy @ ''-'' @ arch @ ''.exe'';
                    st5 = say (Info (''  Trying: '' @ name3)) st4;
                    (ok3, st6) = try_download e cmd (asset_url binary version name3) d [binary] st5
                in ((if ok3 then (True, False) else (downloaded2, is_archive2)), st6))
             else ((downloaded2, is_archive2), st4))
      in ((downloaded3, is_archive3), st6))"

text \<open>
  \<^verbatim>\<open>find "$tmp_dir" -name "$binary" -type f | head -1\<close>: the first regular file of the
  directory whose last component is the name.
\<close>

definition find_binary :: "tmpdir \<Rightarrow> string \<Rightarrow> string list option" where
  "find_binary fl binary =
     (case filter (\<lambda>x. fst x \<noteq> [] \<and> last (fst x) = binary) fl of
        [] \<Rightarrow> None
      | x # xs \<Rightarrow> Some (fst x))"

text \<open>
  Lines 700-711: where the binary is in the extracted contents: \<^verbatim>\<open>[ -f "${tmp_dir}/${binary}" ]\<close>,
  else what \<^verbatim>\<open>find\<close> gives, else nothing.
\<close>

definition locate_binary :: "tmpdir \<Rightarrow> string \<Rightarrow> string list option" where
  "locate_binary fl binary =
     (if map_of fl [binary] \<noteq> None then Some [binary]
      else find_binary fl binary)"

text \<open>
  The same block in the single-format revision of the script (lines 244-257), which
  also looks at \<^verbatim>\<open>${tmp_dir}/${binary}/${binary}\<close> before it searches.
\<close>

definition locate_binary_v1 :: "tmpdir \<Rightarrow> string \<Rightarrow> string list option" where
  "locate_binary_v1 fl binary =
     (if map_of fl [binary] \<noteq> None then Some [binary]
      else if map_of fl [binary, binary] \<noteq> None then Some [binary, binary]
      else find_binary fl binary)"

text \<open>
  \<^verbatim>\<open>mv\<close> of a file of the temporary directory to a path of the file system. Without the
  source file \<^verbatim>\<open>mv\<close> fails and changes nothing (and the script goes on).
\<close>

definition mv_tmp :: "nat \<Rightarrow> string list \<Rightarrow> string \<Rightarrow> state \<Rightarrow> state" where
  "mv_tmp d src dst st =
     (let fl = (case tmps st d of None \<Rightarrow> [] | Some fl \<Rightarrow> fl)
      in case map_of fl src of
           None \<Rightarrow> st
         | Some body \<Rightarrow>
             st\<lparr>fs := (fs st)(dst := Some (File body False)),
                tmps := (tmps st)(d := Some (filter (\<lambda>x. fst x \<noteq> src) fl))\<rparr>)"

text \<open>
  Lines 692-715: the archive is extracted and the binary moved to the install path, or
  the raw download is moved. \<open>False\<close> is \<^verbatim>\<open>return 1\<close>.
\<close>

definition place_binary :: "env \<Rightarrow> string \<Rightarrow> nat \<Rightarrow> string \<Rightarrow> bool \<Rightarrow> string \<Rightarrow> state \<Rightarrow> bool \<times> state" where
  "place_binary e binary d ext is_archive install_path st0 =
     (if is_archive then
        (let st1 = say (Info ''  Extracting...'') st0;
             (ok, st2) = extract_archive e [''download.'' @ ext] d ext st1
         in if \<not> ok then (False, say (Error (''Failed to extract '' @ binary)) st2)
            else
              (case locate_binary (case tmps st2 d of None \<Rightarrow> [] | Some fl \<Rightarrow> fl) binary of
                 Some found \<Rightarrow> (True, mv_tmp d found (install_path @ ''/'' @ binary) st2)
               | None \<Rightarrow>
                   (False, say (Error (''Could not find '' @ binary @ '' in extracted archive'')) st2)))
      else (True, mv_tmp d [binary] (install_path @ ''/'' @ binary) st0))"

text \<open>\<^verbatim>\<open>chmod +x\<close> of a path that holds a regular file.\<close>

definition chmod_x :: "string \<Rightarrow> state \<Rightarrow> state" where
  "chmod_x p st =
     (case fs st p of
        Some (File body x) \<Rightarrow> st\<lparr>fs := (fs st)(p := Some (File body True))\<rparr>
      | _ \<Rightarrow> st)"

definition rm_f :: "string \<Rightarrow> state \<Rightarrow> state" where
  "rm_f p st = st\<lparr>fs := (fs st)(p := None)\<rparr>"

text \<open>\<^verbatim>\<open>ln -s target link\<close>, where nothing is at \<open>link\<close>: the link holds the text \<open>target\<close>.\<close>

definition ln_s :: "string \<Rightarrow> string \<Rightarrow> state \<Rightarrow> state" where
  "ln_s target link st =
     (case fs st link of
        None \<Rightarrow> st\<lparr>fs := (fs st)(link := Some (Symlink target))\<rparr>
      | Some n \<Rightarrow> st)"

text \<open>Lines 717-729: the file is made executable and the symlink of the bin directory is replaced.\<close>

definition publish :: "env \<Rightarrow> string \<Rightarrow> string \<Rightarrow> string \<Rightarrow> state \<Rightarrow> state" where
  "publish e binary display install_path st0 =
     (let binary_path = install_path @ ''/'' @ binary;
          st1 = chmod_x binary_path st0;
          symlink_path = BIN_DIR e @ ''/'' @ binary;
          st2 = rm_f symlink_path st1;
          st3 = ln_s binary_path symlink_path st2;
          st4 = say (Success (''Installed '' @ binary @ '' '' @ display)) st3;
          st5 = say (Info (''  Binary: '' @ binary_path)) st4
      in say (Info (''  Symlink: '' @ symlink_path)) st5)"

text \<open>
  Line 629: \<^verbatim>\<open>version_display=$(echo "$version" | sed 's/^v//')\<close>, and the two steps of
  lines 622-629 together: the normalized version of a raw one, used for display and for
  the install path.
\<close>

definition display_of :: "env \<Rightarrow> string \<Rightarrow> string" where
  "display_of e version = strip_newlines (sed_s_v (sh_echo e version))"

definition version_display :: "env \<Rightarrow> string \<Rightarrow> string" where
  "version_display e raw = display_of e (version_url raw)"

text \<open>
  The function as a whole; the result is its status. The variable \<^verbatim>\<open>version_display\<close> is
  \<open>display\<close> here.
\<close>

definition install_binary :: "env \<Rightarrow> string \<Rightarrow> string \<Rightarrow> string \<Rightarrow> state \<Rightarrow> nat \<times> state" where
  "install_binary e cmd binary version0 st0 =
     (let st1 = say (Info (''Installing '' @ binary @ ''...'')) st0
      in case resolve_version e cmd binary version0 st1 of
           (None, st2) \<Rightarrow> (1, st2)
         | (Some version1, st2) \<Rightarrow>
             (let version = version_url version1;
                  display = display_of e version;
                  st3 = say (Info (''  Version: '' @ display)) st2;
                  install_path = VERSIONS_DIR e @ ''/'' @ binary @ ''/'' @ display;
                  \<comment> \<open>the two \<^verbatim>\<open>mkdir -p\<close>: directories are implicit\<close>
                  (tmp_dir, st4) = mktemp_d st3;
                  st5 = trap_rm_rf tmp_dir st4;
                  (os, st6) = subst (detect_os e) st5;
                  (os_legacy, st7) = subst (detect_os_legacy e) st6;
                  (arch, st8) = subst (detect_arch e) st7;
                  ext = get_archive_ext os;
                  ((downloaded, is_archive), st9) =
                    download_formats e cmd binary version os os_legacy arch ext tmp_dir st8
              in if \<not> downloaded then
                   (1, say (Error (''Failed to download '' @ binary @ '' (tried multiple URL formats)'')) st9)
                 else
                   (case place_binary e binary tmp_dir ext is_archive install_path st9 of
                      (False, st10) \<Rightarrow> (1, st10)
                    | (True, st10) \<Rightarrow> (0, publish e binary display install_path st10))))"

subsection \<open>PATH configuration (lines 732-780)\<close>

text \<open>
  \<^verbatim>\<open>grep -q "${BIN_DIR}" "$config_file"\<close>: some line of the file matches the pattern.
\<close>

definition grep_q :: "env \<Rightarrow> string \<Rightarrow> string \<Rightarrow> bool" where
  "grep_q e pat content =
     (case bre_parse pat of
        None \<Rightarrow> grep_other e pat content
      | Some re \<Rightarrow> list_ex (grep_line re) (lines_of content))"

text \<open>
  Lines 743-762: the configuration file of the login shell. A configuration file is a
  regular file or absent (not a symbolic link).
\<close>

definition config_file_of :: "env \<Rightarrow> files \<Rightarrow> string" where
  "config_file_of e f =
     (let shell_name = basename (var_SHELL e)
      in if shell_name = ''bash'' then
           (if is_file f (var_HOME e @ ''/.bash_profile'') then var_HOME e @ ''/.bash_profile''
            else var_HOME e @ ''/.bashrc'')
         else if shell_name = ''zsh'' then var_HOME e @ ''/.zshrc''
         else if shell_name = ''fish'' then var_HOME e @ ''/.config/fish/config.fish''
         else var_HOME e @ ''/.profile'')"

definition file_content :: "files \<Rightarrow> string \<Rightarrow> string" where
  "file_content f p = (case f p of Some (File body x) \<Rightarrow> body | _ \<Rightarrow> [])"

text \<open>
  \<^verbatim>\<open>echo text >> path\<close> and \<^verbatim>\<open>echo text > path\<close>. The shell opens the file before it
  runs \<^verbatim>\<open>echo\<close>; when it cannot, nothing is written and the command fails (\<open>None\<close>).
\<close>

definition echo_append :: "env \<Rightarrow> string \<Rightarrow> string \<Rightarrow> state \<Rightarrow> state option" where
  "echo_append e text p st =
     (if \<not> can_write e p then None
      else case fs st p of
             Some (File body x) \<Rightarrow> Some (st\<lparr>fs := (fs st)(p := Some (File (body @ text @ nl) x))\<rparr>)
           | _ \<Rightarrow> Some (st\<lparr>fs := (fs st)(p := Some (File (text @ nl) False))\<rparr>))"

definition echo_to :: "env \<Rightarrow> string \<Rightarrow> string \<Rightarrow> state \<Rightarrow> state option" where
  "echo_to e text p st =
     (if \<not> can_write e p then None
      else case fs st p of
             Some (File body x) \<Rightarrow> Some (st\<lparr>fs := (fs st)(p := Some (File (text @ nl) x))\<rparr>)
           | _ \<Rightarrow> Some (st\<lparr>fs := (fs st)(p := Some (File (text @ nl) False))\<rparr>))"

text \<open>
  \<open>setup_path\<close> is called in the body of an \<^verbatim>\<open>if\<close> of \<open>main\<close>, where \<^verbatim>\<open>set -e\<close> (line 406)
  is in force: an \<^verbatim>\<open>echo\<close> whose redirection fails ends the script there, with the status
  of that command. The first component of the result is that status, or \<open>None\<close> when the
  function returned.
\<close>

definition setup_path :: "env \<Rightarrow> state \<Rightarrow> nat option \<times> state" where
  "setup_path e st0 =
     (if contains ('':'' @ BIN_DIR e @ '':'') ('':'' @ var_PATH e @ '':'') then (None, st0)
      else
        (let st1 = say (Info (''Adding '' @ BIN_DIR e @ '' to PATH...'')) st0;
             config_file = config_file_of e (fs st1);
             path_export = ''export PATH='' @ dq @ ''${PATH}:'' @ BIN_DIR e @ dq;
             restart = Warn (''Please restart your shell or run: source '' @ config_file)
         in if is_file (fs st1) config_file then
              (if \<not> grep_q e (BIN_DIR e) (file_content (fs st1) config_file) then
                 (case echo_append e [] config_file st1 of
                    None \<Rightarrow> (Some (sh_redirect_status e), st1)
                  | Some st2 \<Rightarrow>
                      (case echo_append e ''# Added by Centy installer'' config_file st2 of
                         None \<Rightarrow> (Some (sh_redirect_status e), st2)
                       | Some st3 \<Rightarrow>
                           (case echo_append e path_export config_file st3 of
                              None \<Rightarrow> (Some (sh_redirect_status e), st3)
                            | Some st4 \<Rightarrow>
                                (None, say restart (say (Info (''Added PATH to '' @ config_file)) st4)))))
               else (None, say restart st1))
            else
              (case echo_to e path_export config_file st1 of
                 None \<Rightarrow> (Some (sh_redirect_status e), st1)
               | Some st2 \<Rightarrow>
                   (None, say restart (say (Info (''Created '' @ config_file @ '' with PATH'')) st2)))))"

subsection \<open>Summary and main (lines 782-853)\<close>

definition print_summary :: "env \<Rightarrow> state \<Rightarrow> state" where
  "print_summary e st =
     st\<lparr>out := out st
         @ [Echo [], Echo ''============================================'',
            Success ''Installation complete!'',
            Echo ''============================================'', Echo [],
            Echo ''Installed binaries:'']
         @ map (\<lambda>binary. Echo (''  - '' @ BIN_DIR e @ ''/'' @ binary))
             (filter (\<lambda>binary. is_link (fs st) (BIN_DIR e @ ''/'' @ binary)) (words (BINARIES e)))
         @ [Echo [], Echo (''To get started, ensure '' @ BIN_DIR e @ '' is in your PATH,''),
            Echo ''then run any of the installed binaries.'', Echo []]\<rparr>"

text \<open>
  Lines 824-833: the loop over the requested binaries, with the variables \<^verbatim>\<open>installed\<close>
  and \<^verbatim>\<open>failed\<close> (the names they list).
\<close>

fun install_loop ::
  "env \<Rightarrow> string \<Rightarrow> string list \<Rightarrow> string list \<times> string list \<times> state
     \<Rightarrow> string list \<times> string list \<times> state" where
  "install_loop e cmd [] acc = acc"
| "install_loop e cmd (binary # rest) (installed, failed, st) =
     (case install_binary e cmd binary (var_VERSION e) st of
        (rc, st1) \<Rightarrow>
          install_loop e cmd rest
            (if rc = 0 then (installed @ [binary], failed, say (Echo []) st1)
             else (installed, failed @ [binary], say (Echo []) st1)))"

text \<open>The shell leaves: the command of the EXIT trap runs.\<close>

definition run_exit_trap :: "state \<Rightarrow> state" where
  "run_exit_trap st =
     (case trap st of
        None \<Rightarrow> st
      | Some d \<Rightarrow> st\<lparr>tmps := (tmps st)(d := None)\<rparr>)"

text \<open>
  A run of the script: the exit status of the process, the binaries the loop recorded as
  installed and as failed, and the state the process leaves behind.
\<close>

record run =
  status :: nat
  installed :: "string list"
  failed :: "string list"
  final :: state

text \<open>
  Lines 835-849, after the loop: the PATH configuration if something was installed, then
  the summary; \<^verbatim>\<open>exit 1\<close> if a binary failed.
\<close>

definition after_loop :: "env \<Rightarrow> string list \<Rightarrow> string list \<Rightarrow> state \<Rightarrow> run" where
  "after_loop e inst fl st9 =
     (case (if inst \<noteq> [] then setup_path e st9 else (None, st9)) of
        (Some code, st10) \<Rightarrow>
          \<lparr>status = code, installed = inst, failed = fl, final = run_exit_trap st10\<rparr>
      | (None, st10) \<Rightarrow>
          if fl \<noteq> [] then
            (let st11 = say (Warn (''Some binaries failed to install:''
                                    @ concat (map (\<lambda>b. '' '' @ b) fl))) st10;
                 st12 = (if inst \<noteq> [] then print_summary e st11 else st11)
             in \<lparr>status = 1, installed = inst, failed = fl, final = run_exit_trap st12\<rparr>)
          else \<lparr>status = 0, installed = inst, failed = fl,
                 final = run_exit_trap (print_summary e st10)\<rparr>)"

text \<open>
  \<open>main\<close> (lines 802-850). The two \<^verbatim>\<open>mkdir -p\<close> of lines 820-821 are taken to succeed:
  directories are implicit in the file system of the model.
\<close>

definition main :: "env \<Rightarrow> state \<Rightarrow> run" where
  "main e st0 =
     (let st1 = st0\<lparr>out := out st0
                   @ [Echo [], Echo ''============================================'',
                      Echo ''       Centy Installer'',
                      Echo ''============================================'', Echo []]\<rparr>
      in case check_requirements e st1 of
           (None, st2) \<Rightarrow> \<lparr>status = 1, installed = [], failed = [], final = run_exit_trap st2\<rparr>
         | (Some cmd, st2) \<Rightarrow>
             (let st3 = say (Info (''Installation directory: '' @ INSTALL_DIR e)) st2;
                  st4 = say (Info (''Binaries directory: '' @ BIN_DIR e)) st3;
                  st5 = say (Info (''Binaries to install: '' @ BINARIES e)) st4;
                  (arch, st6) = subst (detect_arch e) st5;
                  (os, st7) = subst (detect_os e) st6;
                  st8 = say (Echo []) (say (Info (''Platform: '' @ arch @ ''-'' @ os)) st7);
                  (inst, fl, st9) = install_loop e cmd (words (BINARIES e)) ([], [], st8)
              in after_loop e inst fl st9))"

subsection \<open>The Node installer (scripts/install.js, lines 1-148)\<close>

text \<open>
  What a request meets: a response (status code, the \<^verbatim>\<open>location\<close> header if there is
  one, the body), or an \<^verbatim>\<open>error\<close> event of the request.
\<close>

datatype response = Response nat "string option" string | RequestError string

text \<open>The errors a promise of the installer is rejected with.\<close>

datatype js_error =
    UnsupportedPlatform string
  | UnsupportedArchitecture string
  | HttpError nat string
  | Rejected string

definition getPlatform :: "string \<Rightarrow> string \<Rightarrow> js_error + (string \<times> string \<times> string)" where
  "getPlatform platform arch =
     (case (if platform = ''darwin'' then Some ''apple-darwin''
            else if platform = ''linux'' then Some ''unknown-linux-gnu''
            else if platform = ''win32'' then Some ''pc-windows-msvc''
            else None) of
        None \<Rightarrow> Inl (UnsupportedPlatform platform)
      | Some os \<Rightarrow>
          (case (if arch = ''x64'' then Some ''x86_64''
                 else if arch = ''arm64'' then Some ''aarch64''
                 else None) of
             None \<Rightarrow> Inl (UnsupportedArchitecture arch)
           | Some archName \<Rightarrow> Inr (os, archName, if platform = ''win32'' then ''zip'' else ''tar.gz'')))"

text \<open>
  \<open>httpsGet\<close>: the promise settles with the body (\<open>Inr\<close>) or an error (\<open>Inl\<close>); on a
  301 or 302 the function calls itself with the \<^verbatim>\<open>location\<close> header, and nothing counts
  the calls. \<open>None\<close>: the promise never settles. Without the header the call is
  \<^verbatim>\<open>https.get(undefined, options, callback)\<close>, which Node reads as a request with default
  options and no callback: it goes to \<^verbatim>\<open>https://localhost/\<close>, an \<^verbatim>\<open>error\<close> event of that
  request rejects the promise, and a response is read by nobody.
\<close>

partial_function (option) httpsGet :: "(string \<Rightarrow> response) \<Rightarrow> string \<Rightarrow> (js_error + string) option" where
  "httpsGet srv url =
     (case srv url of
        RequestError msg \<Rightarrow> Some (Inl (Rejected msg))
      | Response statusCode location body \<Rightarrow>
          if statusCode = 302 \<or> statusCode = 301 then
            (case location of
               None \<Rightarrow>
                 (case srv ''https://localhost/'' of
                    RequestError msg \<Rightarrow> Some (Inl (Rejected msg))
                  | Response c l b \<Rightarrow> None)
             | Some l \<Rightarrow> httpsGet srv l)
          else if statusCode \<noteq> 200 then Some (Inl (HttpError statusCode url))
          else Some (Inr body))"

definition REPO :: string where
  "REPO = ''tupe12334/centy-installer''"

text \<open>A number in a template literal: its decimal digits.\<close>

function show_nat :: "nat \<Rightarrow> string" where
  "show_nat n = (if n < 10 then [char_of (48 + n)] else show_nat (n div 10) @ [char_of (48 + n mod 10)])"
  by pat_completeness auto
termination
  by (relation "measure id") auto

definition error_message :: "js_error \<Rightarrow> string" where
  "error_message err =
     (case err of
        UnsupportedPlatform p \<Rightarrow> ''Unsupported platform: '' @ p
      | UnsupportedArchitecture a \<Rightarrow> ''Unsupported architecture: '' @ a
      | HttpError code url \<Rightarrow> ''HTTP '' @ show_nat code @ '': '' @ url
      | Rejected msg \<Rightarrow> msg)"

definition BINARY_NAME :: string where
  "BINARY_NAME = ''centy''"

text \<open>
  The process: platform and architecture, the server the requests reach, and the parts
  of \<open>main\<close> that are left to Node and to the tools: \<open>tag_name_of\<close> is
  \<^verbatim>\<open>JSON.parse(data.toString()).tag_name\<close> as a template literal prints it,
  \<open>unpack\<close> is \<open>extractTarGz\<close> or \<open>extractZip\<close> followed by \<^verbatim>\<open>chmodSync\<close> (each may
  throw). For the bin wrapper: whether the binary is beside it, its arguments, and what
  becomes of the child it spawns.
\<close>

datatype child = SpawnError string | ChildExit "nat option"

record node_env =
  process_platform :: string
  process_arch :: string
  server :: "string \<Rightarrow> response"
  tag_name_of :: "string \<Rightarrow> js_error + string"
  unpack :: "string \<Rightarrow> string \<Rightarrow> js_error option"
  binary_exists :: bool
  argv :: "string list"
  child_of :: "string \<Rightarrow> string list \<Rightarrow> child"

definition failed_lines :: "js_error \<Rightarrow> string list" where
  "failed_lines err =
     [''Failed to install centy: '' @ error_message err,
      ''You can manually install from: https://github.com/tupe12334/centy-installer/releases'']"

text \<open>
  \<open>main\<close> run to its end (lines 111-146): the exit status of the process and the lines
  on the console. \<open>None\<close>: a request never settles.
\<close>

definition install_js :: "node_env \<Rightarrow> (nat \<times> string list) option" where
  "install_js e =
     (case getPlatform (process_platform e) (process_arch e) of
        Inl err \<Rightarrow> Some (1, failed_lines err)
      | Inr (os, archName, ext) \<Rightarrow>
          (case httpsGet (server e) (''https://api.github.com/repos/'' @ REPO @ ''/releases/latest'') of
             None \<Rightarrow> None
           | Some (Inl err) \<Rightarrow> Some (1, failed_lines err)
           | Some (Inr data) \<Rightarrow>
               (case tag_name_of e data of
                  Inl err \<Rightarrow> Some (1, failed_lines err)
                | Inr version \<Rightarrow>
                    (let fileName = BINARY_NAME @ ''-'' @ archName @ ''-'' @ os @ ''.'' @ ext;
                         url = ''https://github.com/'' @ REPO @ ''/releases/download/'' @ version @ ''/'' @ fileName;
                         l1 = ''Downloading '' @ BINARY_NAME @ '' '' @ version @ '' for '' @ archName @ ''-'' @ os @ ''...''
                     in case httpsGet (server e) url of
                          None \<Rightarrow> None
                        | Some (Inl err) \<Rightarrow> Some (1, l1 # failed_lines err)
                        | Some (Inr payload) \<Rightarrow>
                            (case unpack e ext payload of
                               Some err \<Rightarrow> Some (1, l1 # failed_lines err)
                             | None \<Rightarrow>
                                 Some (0, [l1, ''Successfully installed '' @ BINARY_NAME @ '' '' @ version]))))))"

text \<open>
  \<open>main\<close> is an \<^verbatim>\<open>async\<close> function: a call runs it up to its first \<^verbatim>\<open>await\<close> and
  returns. Up to there it calls \<open>getPlatform\<close>, whose exception the \<^verbatim>\<open>catch\<close> block turns
  into two lines on the error stream and \<^verbatim>\<open>process.exit(1)\<close>, and \<open>getLatestVersion\<close>,
  which starts the request to the release index; everything from the response on runs in
  a later turn of the event loop.
\<close>

datatype started =
    Exited nat "string list"
  | Awaiting "string list"

definition main_until_await :: "string \<Rightarrow> string \<Rightarrow> started" where
  "main_until_await p a =
     (case getPlatform p a of
        Inl err \<Rightarrow> Exited 1 (failed_lines err)
      | Inr pf \<Rightarrow> Awaiting [''https://api.github.com/repos/'' @ REPO @ ''/releases/latest''])"

subsection \<open>The npm bin wrapper (unnamed/part\_000)\<close>

text \<open>
  What a run of the wrapper did: its exit status, the lines on the error stream, the
  program it spawned (if any), and the requests it had started whose responses it never
  read. The wrapper's own \<^verbatim>\<open>BINARY_NAME\<close> is \<open>name\<close> here, and the binary is named
  without the wrapper's directory.
\<close>

record wrapped =
  exit_status :: nat
  stderr :: "string list"
  spawned :: "(string \<times> string list) option"
  unanswered :: "string list"

definition bin_wrapper :: "node_env \<Rightarrow> wrapped" where
  "bin_wrapper e =
     (let name = (if process_platform e = ''win32'' then ''centy.exe'' else ''centy'')
      in if \<not> binary_exists e then
           \<comment> \<open>the \<^verbatim>\<open>require\<close> of the installer runs its \<open>main\<close> up to the first \<^verbatim>\<open>await\<close>\<close>
           (case main_until_await (process_platform e) (process_arch e) of
              Exited code ls \<Rightarrow>
                \<lparr>exit_status = code, stderr = ''centy binary not found. Running install...'' # ls,
                 spawned = None, unanswered = []\<rparr>
            | Awaiting reqs \<Rightarrow>
                \<comment> \<open>\<^verbatim>\<open>process.exit(0)\<close>\<close>
                \<lparr>exit_status = 0, stderr = [''centy binary not found. Running install...''],
                 spawned = None, unanswered = reqs\<rparr>)
         else
           (case child_of e name (argv e) of
              SpawnError msg \<Rightarrow>
                \<lparr>exit_status = 1, stderr = [''Failed to run centy: '' @ msg],
                 spawned = Some (name, argv e), unanswered = []\<rparr>
            | ChildExit code \<Rightarrow>
                \<lparr>exit_status = (case code of None \<Rightarrow> 0 | Some c \<Rightarrow> c), stderr = [],
                 spawned = Some (name, argv e), unanswered = []\<rparr>))"

subsection \<open>Reading the output\<close>

text \<open>The text of a printed line, and whether a line is the first line of \<open>install_binary\<close>.\<close>

definition line_text :: "line \<Rightarrow> string" where
  "line_text l = (case l of Info m \<Rightarrow> m | Success m \<Rightarrow> m | Warn m \<Rightarrow> m | Error m \<Rightarrow> m | Echo m \<Rightarrow> m)"

fun is_installing :: "line \<Rightarrow> bool" where
  "is_installing (Info m) = starts_with ''Installing '' m"
| "is_installing (Success m) = False"
| "is_installing (Warn m) = False"
| "is_installing (Error m) = False"
| "is_installing (Echo m) = False"

subsection \<open>The specification's search order\<close>

text \<open>
  The specification's words for locating the binary after extraction: (a) a file at the
  root of the temporary directory named as the binary; (b) a file of that name in a
  directory of that name; (c) the first file of that name a recursive search lists;
  otherwise nothing (BinaryNotFoundInArchive).
\<close>

definition locate_spec :: "tmpdir \<Rightarrow> string \<Rightarrow> string list option" where
  "locate_spec fl binaryName =
     (if map_of fl [binaryName] \<noteq> None then Some [binaryName]
      else if map_of fl [binaryName, binaryName] \<noteq> None then Some [binaryName, binaryName]
      else (case filter (\<lambda>x. fst x \<noteq> [] \<and> last (fst x) = binaryName) fl of
              [] \<Rightarrow> None
            | x # xs \<Rightarrow> Some (fst x)))"

subsection \<open>Example servers and environments\<close>

text \<open>
  A server with a chain of \<open>n\<close> redirects (the URL after \<open>k\<close> redirects is \<open>k\<close> letters
  long) that ends in a page, and one that sends every URL back to itself.
\<close>

definition redirects :: "nat \<Rightarrow> string \<Rightarrow> response" where
  "redirects n url =
     (if length url < n then Response 302 (Some (CHR ''r'' # url)) []
      else Response 200 None ''payload'')"

definition redirect_loop :: "string \<Rightarrow> response" where
  "redirect_loop url = Response 301 (Some url) []"

text \<open>A server that has the release index and the archive, and one that is not reachable.\<close>

definition release_server :: "string \<Rightarrow> response" where
  "release_server url = Response 200 None ''release''"

definition unreachable :: "string \<Rightarrow> response" where
  "unreachable url = RequestError ''getaddrinfo ENOTFOUND''"

text \<open>
  A Linux machine (x86-64, curl and tar present, zsh as login shell) that runs the
  script with \<^verbatim>\<open>VERSION=1.2.3\<close> and the download service given; a service that
  publishes nothing; and one where only the raw centy-tui binary of release 1.2.3 for Linux
  on x86-64 is published. The state before a first run: no files, no output.
\<close>

definition linux_host :: "(string \<Rightarrow> string \<Rightarrow> string option) \<Rightarrow> env" where
  "linux_host service =
     \<lparr>uname_s = ''Linux'', uname_m = ''x86_64'', has_curl = True, has_wget = False, has_tar = True,
      var_HOME = ''/home/u'', var_SHELL = ''/bin/zsh'', var_PATH = ''/usr/bin:/bin'',
      var_INSTALL_DIR = [], var_VERSION = ''1.2.3'', var_BINARIES = [],
      net = service, sed_tag_name = (\<lambda>response. []), untar = (\<lambda>payload. None),
      unzip = (\<lambda>payload. None), grep_other = (\<lambda>pat content. False),
      echo_special = (\<lambda>x. x @ nl), can_write = (\<lambda>p. True), sh_redirect_status = 2\<rparr>"

definition offline :: "string \<Rightarrow> string \<Rightarrow> string option" where
  "offline tool url = None"

definition tui_release :: "string \<Rightarrow> string \<Rightarrow> string option" where
  "tui_release tool url =
     (if url = ''https://github.com/centy-io/centy-tui/releases/download/v1.2.3/centy-tui-linux-x86_64''
      then Some ''ELF'' else None)"


definition empty_state :: state where
  "empty_state = \<lparr>fs = (\<lambda>p. None), tmps = (\<lambda>d. None), next_tmp = 0, trap = None, out = [], requests = []\<rparr>"

text \<open>A machine without the centy binary beside the wrapper.\<close>

definition no_binary_env :: "string \<Rightarrow> string \<Rightarrow> (string \<Rightarrow> response) \<Rightarrow> node_env" where
  "no_binary_env p a srv =
     \<lparr>process_platform = p, process_arch = a, server = srv, tag_name_of = (\<lambda>data. Inr ''v1.0.0''),
      unpack = (\<lambda>ext payload. None), binary_exists = False, argv = [''--version''],
      child_of = (\<lambda>prog args. ChildExit (Some 0))\<rparr>"

section \<open>Lines, newlines and the normalized version\<close>

lemma lines_acc_line: "CHR 0x0A \<notin> set x \<Longrightarrow> lines_acc l (x @ CHR 0x0A # r) = (l @ x) # lines_acc [] r"
  by (induction x arbitrary: l) auto

lemma strip_newlines_line: "CHR 0x0A \<notin> set x \<Longrightarrow> strip_newlines (x @ nl) = x"
proof -
  assume "CHR 0x0A \<notin> set x"
  then have "dropWhile (\<lambda>c. c = CHR 0x0A) (rev x) = rev x"
    by (cases "rev x") (auto simp: rev_eq_Cons_iff)
  then show ?thesis
    by (simp add: strip_newlines_def nl_def)
qed

lemma sed_strip_v_set: "set (sed_strip_v x) \<subseteq> set x"
  by (cases x) auto

text \<open>
  For a version of one line without a backslash (after line 626 it starts with \<open>v\<close>, so
  not with a hyphen) line 629 is the substitution on that line.
\<close>

lemma display_of_plain:
  assumes "CHR 0x5C \<notin> set v" "CHR 0x0A \<notin> set v" "\<not> starts_with ''-'' v"
  shows "display_of e v = sed_strip_v v"
proof -
  have "lines_of (v @ nl) = [v]"
    using lines_acc_line [OF assms(2), of "[]" "[]"] by (simp add: lines_of_def nl_def)
  moreover have "CHR 0x0A \<notin> set (sed_strip_v v)"
    using assms(2) sed_strip_v_set [of v] by auto
  ultimately show ?thesis
    using assms(1,3) by (simp add: display_of_def sh_echo_def sed_s_v_def strip_newlines_line)
qed

lemma version_url_plain:
  "\<not> starts_with ''-'' (version_url raw)"
  "CHR 0x5C \<notin> set raw \<Longrightarrow> CHR 0x5C \<notin> set (version_url raw)"
  "CHR 0x0A \<notin> set raw \<Longrightarrow> CHR 0x0A \<notin> set (version_url raw)"
proof -
  show "\<not> starts_with ''-'' (version_url raw)"
    by (cases raw) (auto simp: version_url_def)
  show "CHR 0x5C \<notin> set raw \<Longrightarrow> CHR 0x5C \<notin> set (version_url raw)"
    by (simp add: version_url_def)
  show "CHR 0x0A \<notin> set raw \<Longrightarrow> CHR 0x0A \<notin> set (version_url raw)"
    by (simp add: version_url_def)
qed

lemma version_display_plain:
  assumes "CHR 0x5C \<notin> set raw" "CHR 0x0A \<notin> set raw"
  shows "version_display e raw = sed_strip_v raw"
proof -
  have "version_display e raw = sed_strip_v (version_url raw)"
    using assms by (simp add: version_display_def display_of_plain version_url_plain)
  also have "\<dots> = sed_strip_v raw"
    by (cases raw) (simp_all add: version_url_def)
  finally show ?thesis .
qed

section \<open>Effects of the steps of install\_binary\<close>

lemma say_simps:
  "fs (say l st) = fs st" "tmps (say l st) = tmps st" "next_tmp (say l st) = next_tmp st"
  "trap (say l st) = trap st" "requests (say l st) = requests st" "out (say l st) = out st @ [l]"
  by (simp_all add: say_def)

lemma try_download_frame:
  "try_download e cmd url d p st = (ok, st') \<Longrightarrow>
     fs st' = fs st \<and> trap st' = trap st \<and> next_tmp st' = next_tmp st \<and> out st' = out st
     \<and> requests st' = requests st @ [url] \<and> ok = (net e cmd url \<noteq> None)
     \<and> (\<forall>d'. d' \<noteq> d \<longrightarrow> tmps st' d' = tmps st d')
     \<and> (tmps st d \<noteq> None \<longrightarrow> tmps st' d \<noteq> None)
     \<and> (ok \<longrightarrow> (\<exists>fl. tmps st' d = Some fl \<and> map_of fl p = net e cmd url))"
  by (auto simp: try_download_def put_tmp_def Let_def split: option.splits)

lemma download_formats_flags:
  "fst (download_formats e cmd b v os osl ar ext d st) =
     (if net e cmd (asset_url b v (b @ ''-'' @ v @ ''-'' @ ar @ ''-'' @ os @ ''.'' @ ext)) \<noteq> None
      then (True, True)
      else if net e cmd (asset_url b v (b @ ''-'' @ osl @ ''-'' @ ar)) \<noteq> None then (True, False)
      else if osl = ''windows'' \<and> net e cmd (asset_url b v (b @ ''-'' @ osl @ ''-'' @ ar @ ''.exe'')) \<noteq> None
      then (True, False)
      else (False, False))"
  by (auto simp: download_formats_def try_download_def Let_def split: option.splits prod.splits)

lemma download_formats_requests:
  "requests (snd (download_formats e cmd b v os osl ar ext d st)) =
     requests st @
     (if net e cmd (asset_url b v (b @ ''-'' @ v @ ''-'' @ ar @ ''-'' @ os @ ''.'' @ ext)) \<noteq> None
      then [asset_url b v (b @ ''-'' @ v @ ''-'' @ ar @ ''-'' @ os @ ''.'' @ ext)]
      else if net e cmd (asset_url b v (b @ ''-'' @ osl @ ''-'' @ ar)) \<noteq> None \<or> osl \<noteq> ''windows''
      then [asset_url b v (b @ ''-'' @ v @ ''-'' @ ar @ ''-'' @ os @ ''.'' @ ext),
            asset_url b v (b @ ''-'' @ osl @ ''-'' @ ar)]
      else [asset_url b v (b @ ''-'' @ v @ ''-'' @ ar @ ''-'' @ os @ ''.'' @ ext),
            asset_url b v (b @ ''-'' @ osl @ ''-'' @ ar),
            asset_url b v (b @ ''-'' @ osl @ ''-'' @ ar @ ''.exe'')])"
  by (auto simp: download_formats_def try_download_def say_def put_tmp_def Let_def split: option.splits prod.splits)

lemma download_formats_out:
  "out (snd (download_formats e cmd b v os osl ar ext d st)) =
     out st @
     (if net e cmd (asset_url b v (b @ ''-'' @ v @ ''-'' @ ar @ ''-'' @ os @ ''.'' @ ext)) \<noteq> None
      then [Info (''  Trying: '' @ b @ ''-'' @ v @ ''-'' @ ar @ ''-'' @ os @ ''.'' @ ext)]
      else if net e cmd (asset_url b v (b @ ''-'' @ osl @ ''-'' @ ar)) \<noteq> None \<or> osl \<noteq> ''windows''
      then [Info (''  Trying: '' @ b @ ''-'' @ v @ ''-'' @ ar @ ''-'' @ os @ ''.'' @ ext),
            Info (''  Trying: '' @ b @ ''-'' @ osl @ ''-'' @ ar)]
      else [Info (''  Trying: '' @ b @ ''-'' @ v @ ''-'' @ ar @ ''-'' @ os @ ''.'' @ ext),
            Info (''  Trying: '' @ b @ ''-'' @ osl @ ''-'' @ ar),
            Info (''  Trying: '' @ b @ ''-'' @ osl @ ''-'' @ ar @ ''.exe'')])"
  by (auto simp: download_formats_def try_download_def say_def put_tmp_def Let_def split: option.splits prod.splits)

lemma download_formats_frame:
  "download_formats e cmd b v os osl ar ext d st = (r, st') \<Longrightarrow>
     fs st' = fs st \<and> trap st' = trap st \<and> next_tmp st' = next_tmp st
     \<and> (\<forall>d'. d' \<noteq> d \<longrightarrow> tmps st' d' = tmps st d')
     \<and> (tmps st d \<noteq> None \<longrightarrow> tmps st' d \<noteq> None)"
  by (auto simp: download_formats_def try_download_def say_def put_tmp_def Let_def split: option.splits prod.splits if_splits)

lemma download_formats_raw:
  "download_formats e cmd b v os osl ar ext d st = ((True, False), st') \<Longrightarrow>
     \<exists>fl body. tmps st' d = Some fl \<and> map_of fl [b] = Some body"
  by (auto simp: download_formats_def try_download_def say_def put_tmp_def Let_def split: option.splits prod.splits if_splits)


lemma resolve_version_frame:
  "resolve_version e cmd b v0 st = (r, st') \<Longrightarrow>
     fs st' = fs st \<and> trap st' = trap st \<and> next_tmp st' = next_tmp st \<and> tmps st' = tmps st
     \<and> (v0 \<noteq> [] \<longrightarrow> r = Some v0 \<and> st' = st)"
  by (auto simp: resolve_version_def get_latest_version_def say_def Let_def split: option.splits if_splits)

lemma subst_simps:
  "fst (subst r st) = captured r" "fs (snd (subst r st)) = fs st" "trap (snd (subst r st)) = trap st"
  "next_tmp (snd (subst r st)) = next_tmp st" "tmps (snd (subst r st)) = tmps st"
  "requests (snd (subst r st)) = requests st"
  "out (snd (subst r st)) = out st @ (case r of Inl l \<Rightarrow> [l] | Inr s \<Rightarrow> [])"
  by (auto simp: subst_def say_def split: sum.splits)

lemma locate_binary_in_dir: "locate_binary fl b = Some p \<Longrightarrow> map_of fl p \<noteq> None"
proof (cases "map_of fl [b] \<noteq> None")
  case True
  assume "locate_binary fl b = Some p"
  with True show ?thesis by (auto simp: locate_binary_def)
next
  case False
  assume "locate_binary fl b = Some p"
  with False have "find_binary fl b = Some p" by (simp add: locate_binary_def)
  then obtain x xs where "filter (\<lambda>x. fst x \<noteq> [] \<and> last (fst x) = b) fl = x # xs" "p = fst x"
    by (auto simp: find_binary_def split: list.splits)
  then have "x \<in> set (filter (\<lambda>x. fst x \<noteq> [] \<and> last (fst x) = b) fl)"
    by simp
  then have "x \<in> set fl"
    by simp
  with \<open>p = fst x\<close> have "p \<in> fst ` set fl" by auto
  then show ?thesis by (simp add: map_of_eq_None_iff)
qed

lemma extract_archive_frame:
  "extract_archive e a d ext st = (ok, st') \<Longrightarrow>
     fs st' = fs st \<and> trap st' = trap st \<and> next_tmp st' = next_tmp st
     \<and> (\<forall>d'. d' \<noteq> d \<longrightarrow> tmps st' d' = tmps st d')
     \<and> (tmps st d \<noteq> None \<longrightarrow> tmps st' d \<noteq> None)"
  by (auto simp: extract_archive_def say_def Let_def split: option.splits if_splits)

lemma mv_tmp_simps:
  "trap (mv_tmp d p dst st) = trap st" "next_tmp (mv_tmp d p dst st) = next_tmp st"
  "out (mv_tmp d p dst st) = out st" "requests (mv_tmp d p dst st) = requests st"
  "d' \<noteq> d \<Longrightarrow> tmps (mv_tmp d p dst st) d' = tmps st d'"
  by (auto simp: mv_tmp_def Let_def split: option.splits)

lemma mv_tmp_keeps_dir: "tmps st d = Some fl \<Longrightarrow> \<exists>fl'. tmps (mv_tmp d p dst st) d = Some fl'"
  by (auto simp: mv_tmp_def Let_def split: option.splits)

lemma mv_tmp_fs:
  "tmps st d = Some fl \<Longrightarrow> map_of fl p = Some body \<Longrightarrow>
     fs (mv_tmp d p dst st) = (fs st)(dst := Some (File body False))"
  by (simp add: mv_tmp_def)

lemma place_binary_frame:
  "place_binary e b d ext ia ip st = (ok, st') \<Longrightarrow>
     trap st' = trap st \<and> next_tmp st' = next_tmp st
     \<and> (\<forall>d'. d' \<noteq> d \<longrightarrow> tmps st' d' = tmps st d')
     \<and> (tmps st d \<noteq> None \<longrightarrow> tmps st' d \<noteq> None)"
  by (auto simp: place_binary_def say_simps Let_def mv_tmp_simps
           split: option.splits if_splits prod.splits
           dest!: extract_archive_frame dest: mv_tmp_keeps_dir)

lemma place_binary_fs:
  assumes "place_binary e b d ext ia ip st = (ok, st')"
    and "\<not> ia \<longrightarrow> (\<exists>fl body. tmps st d = Some fl \<and> map_of fl [b] = Some body)"
  shows "if ok then (\<exists>body. fs st' = (fs st)(ip @ ''/'' @ b := Some (File body False)))
         else fs st' = fs st"
proof (cases ia)
  case False
  with assms(2) obtain fl body where "tmps st d = Some fl" "map_of fl [b] = Some body" by blast
  with assms(1) False show ?thesis
    by (auto simp: place_binary_def mv_tmp_fs)
next
  case True
  obtain ok1 st2 where ex: "extract_archive e [''download.'' @ ext] d ext (say (Info ''  Extracting...'') st) = (ok1, st2)"
    by (cases "extract_archive e [''download.'' @ ext] d ext (say (Info ''  Extracting...'') st)")
  then have fs2: "fs st2 = fs st"
    by (auto dest!: extract_archive_frame simp: say_simps)
  show ?thesis
  proof (cases ok1)
    case False
    with assms(1) True ex fs2 show ?thesis
      by (auto simp: place_binary_def say_simps)
  next
    case ok1: True
    show ?thesis
    proof (cases "locate_binary (case tmps st2 d of None \<Rightarrow> [] | Some fl \<Rightarrow> fl) b")
      case None
      with assms(1) True ex ok1 fs2 show ?thesis
        by (auto simp: place_binary_def say_simps)
    next
      case (Some found)
      then have "map_of (case tmps st2 d of None \<Rightarrow> [] | Some fl \<Rightarrow> fl) found \<noteq> None"
        by (rule locate_binary_in_dir)
      then obtain fl body where "tmps st2 d = Some fl" "map_of fl found = Some body"
        by (auto split: option.splits)
      with assms(1) True ex ok1 fs2 Some show ?thesis
        by (auto simp: place_binary_def mv_tmp_fs)
    qed
  qed
qed

lemma publish_frame:
  "trap (publish e b disp ip st) = trap st \<and> next_tmp (publish e b disp ip st) = next_tmp st
   \<and> tmps (publish e b disp ip st) = tmps st"
  by (auto simp: publish_def say_def chmod_x_def rm_f_def ln_s_def Let_def split: option.splits node.splits)

lemma publish_fs:
  "fs st (ip @ ''/'' @ b) = Some (File body x) \<Longrightarrow>
     fs (publish e b disp ip st) =
       (fs st)(ip @ ''/'' @ b := Some (File body True),
               BIN_DIR e @ ''/'' @ b := Some (Symlink (ip @ ''/'' @ b)))"
  by (simp add: publish_def say_def chmod_x_def rm_f_def ln_s_def Let_def)




lemma install_binary_unfold:
  assumes Pair: "resolve_version e cmd b v0 (say (Info (''Installing '' @ b @ ''...'')) st) = (Some v1, st2)"
  shows "install_binary e cmd b v0 st =
    (let st3 = say (Info (''  Version: '' @ display_of e (version_url v1))) st2;
         st8 = snd (subst (detect_arch e) (snd (subst (detect_os_legacy e) (snd (subst (detect_os e)
                  (trap_rm_rf (next_tmp st2) (snd (mktemp_d st3))))))));
         ip = VERSIONS_DIR e @ ''/'' @ b @ ''/'' @ display_of e (version_url v1);
         df = download_formats e cmd b (version_url v1) (captured (detect_os e))
                (captured (detect_os_legacy e)) (captured (detect_arch e))
                (get_archive_ext (captured (detect_os e))) (next_tmp st2) st8;
         pb = place_binary e b (next_tmp st2) (get_archive_ext (captured (detect_os e))) (snd (fst df)) ip (snd df)
     in if \<not> fst (fst df) then
          (1, say (Error (''Failed to download '' @ b @ '' (tried multiple URL formats)'')) (snd df))
        else if fst pb then (0, publish e b (display_of e (version_url v1)) ip (snd pb))
        else (1, snd pb))"
proof -
  have d: "fst (mktemp_d s) = next_tmp s" for s
    by (simp add: mktemp_d_def)
  show ?thesis
    apply (simp only: install_binary_def Pair prod.case option.case Let_def)
    by (simp only: split_beta subst_simps(1) d say_simps case_bool_if)
qed

lemma install_binary_cases:
  assumes "install_binary e cmd b v0 st = (rc, st')"
  shows "(\<exists>st2. resolve_version e cmd b v0 (say (Info (''Installing '' @ b @ ''...'')) st) = (None, st2)
            \<and> rc = 1 \<and> st' = st2)
       \<or> (\<exists>v1 st2 st8 dl ia st9.
            resolve_version e cmd b v0 (say (Info (''Installing '' @ b @ ''...'')) st) = (Some v1, st2)
          \<and> fs st8 = fs st2 \<and> tmps st8 = (tmps st2)(next_tmp st2 := Some [])
          \<and> next_tmp st8 = Suc (next_tmp st2) \<and> trap st8 = Some (next_tmp st2)
          \<and> requests st8 = requests st2
          \<and> out st8 = out st2 @ [Info (''  Version: '' @ display_of e (version_url v1))]
                @ (case detect_os e of Inl l \<Rightarrow> [l] | Inr s \<Rightarrow> [])
                @ (case detect_os_legacy e of Inl l \<Rightarrow> [l] | Inr s \<Rightarrow> [])
                @ (case detect_arch e of Inl l \<Rightarrow> [l] | Inr s \<Rightarrow> [])
          \<and> download_formats e cmd b (version_url v1) (captured (detect_os e))
                (captured (detect_os_legacy e)) (captured (detect_arch e))
                (get_archive_ext (captured (detect_os e))) (next_tmp st2) st8 = ((dl, ia), st9)
          \<and> (if \<not> dl then rc = 1
                 \<and> st' = say (Error (''Failed to download '' @ b @ '' (tried multiple URL formats)'')) st9
               else (\<exists>ok st10.
                  place_binary e b (next_tmp st2) (get_archive_ext (captured (detect_os e))) ia
                    (VERSIONS_DIR e @ ''/'' @ b @ ''/'' @ display_of e (version_url v1)) st9 = (ok, st10)
                  \<and> (if ok then rc = 0
                        \<and> st' = publish e b (display_of e (version_url v1))
                                 (VERSIONS_DIR e @ ''/'' @ b @ ''/'' @ display_of e (version_url v1)) st10
                      else rc = 1 \<and> st' = st10))))"
proof (cases "resolve_version e cmd b v0 (say (Info (''Installing '' @ b @ ''...'')) st)")
  case (Pair r st2)
  show ?thesis
  proof (cases r)
    case None
    with Pair assms show ?thesis by (simp add: install_binary_def)
  next
    case (Some v1)
    with Pair have rv: "resolve_version e cmd b v0 (say (Info (''Installing '' @ b @ ''...'')) st) = (Some v1, st2)"
      by simp
    define st8 where "st8 = snd (subst (detect_arch e) (snd (subst (detect_os_legacy e) (snd (subst (detect_os e)
                  (trap_rm_rf (next_tmp st2) (snd (mktemp_d (say (Info (''  Version: '' @ display_of e (version_url v1))) st2)))))))))"
    define df where "df = download_formats e cmd b (version_url v1) (captured (detect_os e))
                (captured (detect_os_legacy e)) (captured (detect_arch e))
                (get_archive_ext (captured (detect_os e))) (next_tmp st2) st8"
    define pb where "pb = place_binary e b (next_tmp st2) (get_archive_ext (captured (detect_os e))) (snd (fst df))
                    (VERSIONS_DIR e @ ''/'' @ b @ ''/'' @ display_of e (version_url v1)) (snd df)"
    have eq: "install_binary e cmd b v0 st =
       (if \<not> fst (fst df) then
          (1, say (Error (''Failed to download '' @ b @ '' (tried multiple URL formats)'')) (snd df))
        else if fst pb then
          (0, publish e b (display_of e (version_url v1))
                 (VERSIONS_DIR e @ ''/'' @ b @ ''/'' @ display_of e (version_url v1)) (snd pb))
        else (1, snd pb))"
      unfolding pb_def df_def st8_def
      by (simp only: install_binary_unfold [OF rv] Let_def)
    have st8: "fs st8 = fs st2 \<and> tmps st8 = (tmps st2)(next_tmp st2 := Some [])
          \<and> next_tmp st8 = Suc (next_tmp st2) \<and> trap st8 = Some (next_tmp st2)
          \<and> requests st8 = requests st2
          \<and> out st8 = out st2 @ [Info (''  Version: '' @ display_of e (version_url v1))]
                @ (case detect_os e of Inl l \<Rightarrow> [l] | Inr s \<Rightarrow> [])
                @ (case detect_os_legacy e of Inl l \<Rightarrow> [l] | Inr s \<Rightarrow> [])
                @ (case detect_arch e of Inl l \<Rightarrow> [l] | Inr s \<Rightarrow> [])"
      by (simp add: st8_def subst_simps trap_rm_rf_def mktemp_d_def say_simps)
    have dfp: "df = ((fst (fst df), snd (fst df)), snd df)" by simp
    have pbp: "pb = (fst pb, snd pb)" by simp
    from assms eq have res: "(rc, st') =
       (if \<not> fst (fst df) then
          (1, say (Error (''Failed to download '' @ b @ '' (tried multiple URL formats)'')) (snd df))
        else if fst pb then
          (0, publish e b (display_of e (version_url v1))
                 (VERSIONS_DIR e @ ''/'' @ b @ ''/'' @ display_of e (version_url v1)) (snd pb))
        else (1, snd pb))" by simp
    have tail: "if \<not> fst (fst df) then rc = 1
                 \<and> st' = say (Error (''Failed to download '' @ b @ '' (tried multiple URL formats)'')) (snd df)
               else (\<exists>ok st10.
                  place_binary e b (next_tmp st2) (get_archive_ext (captured (detect_os e))) (snd (fst df))
                    (VERSIONS_DIR e @ ''/'' @ b @ ''/'' @ display_of e (version_url v1)) (snd df) = (ok, st10)
                  \<and> (if ok then rc = 0
                        \<and> st' = publish e b (display_of e (version_url v1))
                                 (VERSIONS_DIR e @ ''/'' @ b @ ''/'' @ display_of e (version_url v1)) st10
                      else rc = 1 \<and> st' = st10))"
    proof (cases "fst (fst df)")
      case False
      with res show ?thesis by simp
    next
      case True
      show ?thesis
      proof (cases "fst pb")
        case ok: True
        then have p: "pb = (True, snd pb)" by (cases pb) simp
        from True ok res have "rc = 0" "st' = publish e b (display_of e (version_url v1))
                 (VERSIONS_DIR e @ ''/'' @ b @ ''/'' @ display_of e (version_url v1)) (snd pb)"
          by simp_all
        with True p show ?thesis
          unfolding pb_def [symmetric] by (simp only: simp_thms if_False) (rule exI [of _ True], rule exI [of _ "snd pb"], simp)
      next
        case nok: False
        then have p: "pb = (False, snd pb)" by (cases pb) simp
        from True nok res have "rc = 1" "st' = snd pb"
          by simp_all
        with True p show ?thesis
          unfolding pb_def [symmetric] by (simp only: simp_thms if_False) (rule exI [of _ False], rule exI [of _ "snd pb"], simp)
      qed
    qed
    show ?thesis
      apply (rule disjI2)
      apply (rule exI [of _ v1], rule exI [of _ st2], rule exI [of _ st8])
      apply (rule exI [of _ "fst (fst df)"], rule exI [of _ "snd (fst df)"], rule exI [of _ "snd df"])
      using rv st8 tail dfp df_def by (simp only: simp_thms)
  qed
qed


lemma install_binary_fs:
  assumes "install_binary e cmd b v0 st = (rc, st')"
  shows "if rc = 0 then
           (\<exists>v1 body. (v0 \<noteq> [] \<longrightarrow> v1 = v0)
              \<and> fs st' = (fs st)
                   (VERSIONS_DIR e @ ''/'' @ b @ ''/'' @ version_display e v1 @ ''/'' @ b := Some (File body True),
                    BIN_DIR e @ ''/'' @ b := Some (Symlink (VERSIONS_DIR e @ ''/'' @ b @ ''/'' @ version_display e v1 @ ''/'' @ b))))
         else fs st' = fs st"
  using install_binary_cases [OF assms]
proof (elim disjE exE conjE)
  fix st2
  assume "resolve_version e cmd b v0 (say (Info (''Installing '' @ b @ ''...'')) st) = (None, st2)"
    "rc = 1" "st' = st2"
  then show ?thesis
    by (auto dest!: resolve_version_frame simp: say_simps)
next
  fix v1 st2 st8 dl ia st9
  assume rv: "resolve_version e cmd b v0 (say (Info (''Installing '' @ b @ ''...'')) st) = (Some v1, st2)"
    and st8: "fs st8 = fs st2" "tmps st8 = (tmps st2)(next_tmp st2 := Some [])"
    and df: "download_formats e cmd b (version_url v1) (captured (detect_os e))
                (captured (detect_os_legacy e)) (captured (detect_arch e))
                (get_archive_ext (captured (detect_os e))) (next_tmp st2) st8 = ((dl, ia), st9)"
    and tail: "if \<not> dl then rc = 1
                 \<and> st' = say (Error (''Failed to download '' @ b @ '' (tried multiple URL formats)'')) st9
               else (\<exists>ok st10.
                  place_binary e b (next_tmp st2) (get_archive_ext (captured (detect_os e))) ia
                    (VERSIONS_DIR e @ ''/'' @ b @ ''/'' @ display_of e (version_url v1)) st9 = (ok, st10)
                  \<and> (if ok then rc = 0
                        \<and> st' = publish e b (display_of e (version_url v1))
                                 (VERSIONS_DIR e @ ''/'' @ b @ ''/'' @ display_of e (version_url v1)) st10
                      else rc = 1 \<and> st' = st10))"
  from rv have fs2: "fs st2 = fs st" and v1: "v0 \<noteq> [] \<longrightarrow> v1 = v0"
    by (auto dest!: resolve_version_frame simp: say_simps)
  from df st8 fs2 have fs9: "fs st9 = fs st"
    by (auto dest!: download_formats_frame)
  show ?thesis
  proof (cases dl)
    case False
    with tail fs9 show ?thesis by (simp add: say_simps)
  next
    case True
    with tail obtain ok st10 where
      pb: "place_binary e b (next_tmp st2) (get_archive_ext (captured (detect_os e))) ia
             (VERSIONS_DIR e @ ''/'' @ b @ ''/'' @ display_of e (version_url v1)) st9 = (ok, st10)"
      and fin: "if ok then rc = 0
                        \<and> st' = publish e b (display_of e (version_url v1))
                                 (VERSIONS_DIR e @ ''/'' @ b @ ''/'' @ display_of e (version_url v1)) st10
                      else rc = 1 \<and> st' = st10"
      by auto
    have raw: "\<not> ia \<longrightarrow> (\<exists>fl body. tmps st9 (next_tmp st2) = Some fl \<and> map_of fl [b] = Some body)"
    proof
      assume "\<not> ia"
      with df True have "download_formats e cmd b (version_url v1) (captured (detect_os e))
                (captured (detect_os_legacy e)) (captured (detect_arch e))
                (get_archive_ext (captured (detect_os e))) (next_tmp st2) st8 = ((True, False), st9)"
        by simp
      then show "\<exists>fl body. tmps st9 (next_tmp st2) = Some fl \<and> map_of fl [b] = Some body"
        by (rule download_formats_raw)
    qed
    note pf = place_binary_fs [OF pb raw]
    show ?thesis
    proof (cases ok)
      case False
      with pf fin fs9 show ?thesis by simp
    next
      case ok: True
      with pf obtain body where
        fs10: "fs st10 = (fs st9)((VERSIONS_DIR e @ ''/'' @ b @ ''/'' @ display_of e (version_url v1)) @ ''/'' @ b := Some (File body False))"
        by auto
      then have "fs st10 ((VERSIONS_DIR e @ ''/'' @ b @ ''/'' @ display_of e (version_url v1)) @ ''/'' @ b) = Some (File body False)"
        by simp
      from publish_fs [OF this, of e "display_of e (version_url v1)"] fs10 fs9 ok fin
      have "fs st' = (fs st)
                   (VERSIONS_DIR e @ ''/'' @ b @ ''/'' @ version_display e v1 @ ''/'' @ b := Some (File body True),
                    BIN_DIR e @ ''/'' @ b := Some (Symlink (VERSIONS_DIR e @ ''/'' @ b @ ''/'' @ version_display e v1 @ ''/'' @ b)))"
        by (simp add: version_display_def)
      with ok fin v1 show ?thesis by auto
    qed
  qed
qed

lemma install_binary_tmps:
  assumes "install_binary e cmd b v0 st = (rc, st')"
  shows "(\<forall>d. tmps st d \<noteq> None \<longrightarrow> tmps st' d \<noteq> None)
       \<and> (v0 \<noteq> [] \<longrightarrow> tmps st' (next_tmp st) \<noteq> None \<and> trap st' = Some (next_tmp st)
                          \<and> next_tmp st' = Suc (next_tmp st))"
  using install_binary_cases [OF assms]
proof (elim disjE exE conjE)
  fix st2
  assume "resolve_version e cmd b v0 (say (Info (''Installing '' @ b @ ''...'')) st) = (None, st2)"
    "rc = 1" "st' = st2"
  then show ?thesis
    by (auto dest!: resolve_version_frame simp: say_simps)
next
  fix v1 st2 st8 dl ia st9
  assume rv: "resolve_version e cmd b v0 (say (Info (''Installing '' @ b @ ''...'')) st) = (Some v1, st2)"
    and st8: "tmps st8 = (tmps st2)(next_tmp st2 := Some [])" "next_tmp st8 = Suc (next_tmp st2)"
       "trap st8 = Some (next_tmp st2)"
    and df: "download_formats e cmd b (version_url v1) (captured (detect_os e))
                (captured (detect_os_legacy e)) (captured (detect_arch e))
                (get_archive_ext (captured (detect_os e))) (next_tmp st2) st8 = ((dl, ia), st9)"
    and tail: "if \<not> dl then rc = 1
                 \<and> st' = say (Error (''Failed to download '' @ b @ '' (tried multiple URL formats)'')) st9
               else (\<exists>ok st10.
                  place_binary e b (next_tmp st2) (get_archive_ext (captured (detect_os e))) ia
                    (VERSIONS_DIR e @ ''/'' @ b @ ''/'' @ display_of e (version_url v1)) st9 = (ok, st10)
                  \<and> (if ok then rc = 0
                        \<and> st' = publish e b (display_of e (version_url v1))
                                 (VERSIONS_DIR e @ ''/'' @ b @ ''/'' @ display_of e (version_url v1)) st10
                      else rc = 1 \<and> st' = st10))"
  from rv have st2: "tmps st2 = tmps st" "next_tmp st2 = next_tmp st"
    by (auto dest!: resolve_version_frame simp: say_simps)
  have t8: "(\<forall>d. tmps st d \<noteq> None \<longrightarrow> tmps st8 d \<noteq> None) \<and> tmps st8 (next_tmp st) \<noteq> None"
    using st8 st2 by simp
  from download_formats_frame [OF df] t8 st8 st2
  have t9: "(\<forall>d. tmps st d \<noteq> None \<longrightarrow> tmps st9 d \<noteq> None) \<and> tmps st9 (next_tmp st) \<noteq> None
            \<and> trap st9 = Some (next_tmp st) \<and> next_tmp st9 = Suc (next_tmp st)"
    by (metis)
  show ?thesis
  proof (cases dl)
    case False
    with tail t9 show ?thesis by (simp add: say_simps)
  next
    case True
    with tail obtain ok st10 where
      pb: "place_binary e b (next_tmp st2) (get_archive_ext (captured (detect_os e))) ia
             (VERSIONS_DIR e @ ''/'' @ b @ ''/'' @ display_of e (version_url v1)) st9 = (ok, st10)"
      and fin: "if ok then rc = 0
                        \<and> st' = publish e b (display_of e (version_url v1))
                                 (VERSIONS_DIR e @ ''/'' @ b @ ''/'' @ display_of e (version_url v1)) st10
                      else rc = 1 \<and> st' = st10"
      by auto
    from place_binary_frame [OF pb] t9 st2
    have t10: "(\<forall>d. tmps st d \<noteq> None \<longrightarrow> tmps st10 d \<noteq> None) \<and> tmps st10 (next_tmp st) \<noteq> None
            \<and> trap st10 = Some (next_tmp st) \<and> next_tmp st10 = Suc (next_tmp st)"
      by (metis)
    with fin show ?thesis
      by (cases ok) (simp_all add: publish_frame)
  qed
qed


lemma is_installing_first: "is_installing (Info (''Installing '' @ b @ ''...''))"
  by simp

lemma extract_archive_out:
  "extract_archive e a d ext st = (ok, st') \<Longrightarrow>
     requests st' = requests st \<and> filter is_installing (out st') = filter is_installing (out st)"
  by (auto simp: extract_archive_def say_def Let_def split: option.splits if_splits)

lemma place_binary_out:
  "place_binary e b d ext ia ip st = (ok, st') \<Longrightarrow>
     requests st' = requests st \<and> filter is_installing (out st') = filter is_installing (out st)"
  by (auto simp: place_binary_def say_simps Let_def mv_tmp_simps
           split: option.splits if_splits prod.splits dest!: extract_archive_out)

lemma publish_out:
  "requests (publish e b disp ip st) = requests st
   \<and> filter is_installing (out (publish e b disp ip st)) = filter is_installing (out st)"
  by (auto simp: publish_def say_def chmod_x_def rm_f_def ln_s_def Let_def split: option.splits node.splits)


lemma sum_case_error_installing:
  "detect_os e = Inl l \<Longrightarrow> \<not> is_installing l"
  "detect_os_legacy e = Inl l \<Longrightarrow> \<not> is_installing l"
  "detect_arch e = Inl l \<Longrightarrow> \<not> is_installing l"
  by (auto simp: detect_os_def detect_os_legacy_def detect_arch_def split: if_splits)






lemma echo_frame:
  assumes "echo_append e t p st = Some st' \<or> echo_to e t p st = Some st'"
  shows "tmps st' = tmps st" "trap st' = trap st" "next_tmp st' = next_tmp st"
    "requests st' = requests st" "out st' = out st"
  using assms
  by (auto simp: echo_append_def echo_to_def split: if_splits option.splits node.splits)

lemma echo_can_write:
  "echo_append e t p st = None \<longleftrightarrow> \<not> can_write e p"
  "echo_to e t p st = None \<longleftrightarrow> \<not> can_write e p"
  by (auto simp: echo_append_def echo_to_def split: option.splits node.splits)

lemma echo_fs:
  "can_write e p \<Longrightarrow> echo_append e t p st =
     Some (st\<lparr>fs := (fs st)(p := Some (case fs st p of Some (File body x) \<Rightarrow> File (body @ t @ nl) x
                                                     | _ \<Rightarrow> File (t @ nl) False))\<rparr>)"
  "can_write e p \<Longrightarrow> echo_to e t p st =
     Some (st\<lparr>fs := (fs st)(p := Some (case fs st p of Some (File body x) \<Rightarrow> File (t @ nl) x
                                                     | _ \<Rightarrow> File (t @ nl) False))\<rparr>)"
  by (auto simp: echo_append_def echo_to_def split: option.splits node.splits)

text \<open>
  \<open>setup_path\<close> stops exactly when it has to write the configuration file and the shell
  cannot open it; all three \<^verbatim>\<open>echo\<close> go to the same file, so it is the first one that
  fails.
\<close>

lemma setup_path_left:
  "fst (setup_path e st) =
     (if \<not> contains ('':'' @ BIN_DIR e @ '':'') ('':'' @ var_PATH e @ '':'')
         \<and> \<not> (is_file (fs st) (config_file_of e (fs st))
               \<and> grep_q e (BIN_DIR e) (file_content (fs st) (config_file_of e (fs st))))
         \<and> \<not> can_write e (config_file_of e (fs st))
      then Some (sh_redirect_status e) else None)"
proof (cases "can_write e (config_file_of e (fs st))")
  case True
  then show ?thesis
    by (simp add: setup_path_def Let_def say_simps echo_fs)
next
  case False
  then show ?thesis
    by (simp add: setup_path_def Let_def say_simps echo_append_def echo_to_def)
qed

lemma setup_path_fs:
  assumes "\<not> contains ('':'' @ BIN_DIR e @ '':'') ('':'' @ var_PATH e @ '':'')"
  shows "fs (snd (setup_path e st)) =
     (if \<not> can_write e (config_file_of e (fs st)) then fs st
      else case fs st (config_file_of e (fs st)) of
        Some (File body x) \<Rightarrow>
          if grep_q e (BIN_DIR e) body then fs st
          else (fs st)(config_file_of e (fs st) :=
                 Some (File (body @ nl @ ''# Added by Centy installer'' @ nl
                              @ ''export PATH='' @ dq @ ''${PATH}:'' @ BIN_DIR e @ dq @ nl) x))
      | _ \<Rightarrow> (fs st)(config_file_of e (fs st) :=
                 Some (File (''export PATH='' @ dq @ ''${PATH}:'' @ BIN_DIR e @ dq @ nl) False)))"
proof (cases "can_write e (config_file_of e (fs st))")
  case True
  then show ?thesis
    using assms
    by (simp add: setup_path_def Let_def say_simps echo_fs is_file_def file_content_def say_def
          split: option.splits node.splits)
next
  case False
  then show ?thesis
    using assms
    by (simp add: setup_path_def Let_def say_simps echo_append_def echo_to_def)
qed

lemma setup_path_frame:
  "tmps (snd (setup_path e st)) = tmps st \<and> trap (snd (setup_path e st)) = trap st
   \<and> next_tmp (snd (setup_path e st)) = next_tmp st \<and> requests (snd (setup_path e st)) = requests st
   \<and> filter is_installing (out (snd (setup_path e st))) = filter is_installing (out st)"
proof (cases "can_write e (config_file_of e (fs st))")
  case True
  then show ?thesis
    by (simp add: setup_path_def Let_def say_simps echo_fs)
next
  case False
  then show ?thesis
    by (simp add: setup_path_def Let_def say_simps echo_append_def echo_to_def)
qed

text \<open>The configuration file is the same one after \<open>setup_path\<close> has run.\<close>

lemma setup_path_config_file:
  "config_file_of e (fs (snd (setup_path e st))) = config_file_of e (fs st)"
proof (cases "\<not> contains ('':'' @ BIN_DIR e @ '':'') ('':'' @ var_PATH e @ '':'')
              \<and> can_write e (config_file_of e (fs st))")
  case False
  then have "fs (snd (setup_path e st)) = fs st"
    by (cases "contains ('':'' @ BIN_DIR e @ '':'') ('':'' @ var_PATH e @ '':'')")
       (simp_all add: setup_path_fs, simp add: setup_path_def)
  then show ?thesis by simp
next
  case True
  then have p: "\<not> contains ('':'' @ BIN_DIR e @ '':'') ('':'' @ var_PATH e @ '':'')"
    and w: "can_write e (config_file_of e (fs st))" by simp_all
  let ?cfg = "config_file_of e (fs st)"
  have other: "fs (snd (setup_path e st)) q = fs st q" if "q \<noteq> ?cfg" for q
    using that w by (simp add: setup_path_fs [OF p] split: option.splits node.splits)
  have kind: "is_file (fs (snd (setup_path e st))) ?cfg"
    using w by (simp add: setup_path_fs [OF p] is_file_def split: option.splits node.splits)
  show ?thesis
  proof (cases "basename (var_SHELL e) = ''bash''")
    case False
    then show ?thesis by (simp add: config_file_of_def)
  next
    case bash: True
    show ?thesis
    proof (cases "is_file (fs st) (var_HOME e @ ''/.bash_profile'')")
      case True
      with bash have "?cfg = var_HOME e @ ''/.bash_profile''"
        by (simp add: config_file_of_def)
      with kind bash show ?thesis
        by (simp add: config_file_of_def)
    next
      case False
      with bash have c: "?cfg = var_HOME e @ ''/.bashrc''"
        by (simp add: config_file_of_def)
      then have "fs (snd (setup_path e st)) (var_HOME e @ ''/.bash_profile'') = fs st (var_HOME e @ ''/.bash_profile'')"
        by (intro other) simp
      then have "\<not> is_file (fs (snd (setup_path e st))) (var_HOME e @ ''/.bash_profile'')"
        using False by (simp add: is_file_def)
      with bash c show ?thesis
        by (simp add: config_file_of_def)
    qed
  qed
qed


lemma print_summary_frame:
  "tmps (print_summary e st) = tmps st \<and> trap (print_summary e st) = trap st
   \<and> next_tmp (print_summary e st) = next_tmp st \<and> requests (print_summary e st) = requests st
   \<and> fs (print_summary e st) = fs st
   \<and> filter is_installing (out (print_summary e st)) = filter is_installing (out st)"
  by (simp add: print_summary_def filter_empty_conv)




lemma after_loop_final:
  "\<exists>x. final (after_loop e i f s) = run_exit_trap x \<and> tmps x = tmps s \<and> trap x = trap s
       \<and> fs x = fs (if i \<noteq> [] then snd (setup_path e s) else s)
       \<and> filter is_installing (out x) = filter is_installing (out s)"
proof -
  define s10 where "s10 = (if i \<noteq> [] then snd (setup_path e s) else s)"
  define l where "l = (if i \<noteq> [] then fst (setup_path e s) else None)"
  have sp: "(if i \<noteq> [] then setup_path e s else (None, s)) = (l, s10)"
    by (simp add: s10_def l_def)
  have fr: "tmps s10 = tmps s" "trap s10 = trap s"
    "filter is_installing (out s10) = filter is_installing (out s)"
    using setup_path_frame [of e s] by (simp_all add: s10_def)
  define w where "w = say (Warn (''Some binaries failed to install:'' @ concat (map (\<lambda>b. '' '' @ b) f))) s10"
  have frw: "tmps w = tmps s" "trap w = trap s" "fs w = fs s10"
    "filter is_installing (out w) = filter is_installing (out s)"
    by (simp_all add: w_def say_simps fr)
  have al: "after_loop e i f s =
     (case l of
        Some code \<Rightarrow> \<lparr>status = code, installed = i, failed = f, final = run_exit_trap s10\<rparr>
      | None \<Rightarrow>
          if f \<noteq> [] then \<lparr>status = 1, installed = i, failed = f,
                            final = run_exit_trap (if i \<noteq> [] then print_summary e w else w)\<rparr>
          else \<lparr>status = 0, installed = i, failed = f, final = run_exit_trap (print_summary e s10)\<rparr>)"
    unfolding w_def by (simp only: after_loop_def sp prod.case Let_def)
  consider (stop) code where "l = Some code"
    | (warn) "l = None" "f \<noteq> []" "i \<noteq> []"
    | (none) "l = None" "f \<noteq> []" "i = []"
    | (fine) "l = None" "f = []"
    by (cases l) auto
  then show ?thesis
  proof cases
    case stop
    then have "final (after_loop e i f s) = run_exit_trap s10" unfolding al by simp
    with fr show ?thesis unfolding s10_def by blast
  next
    case warn
    then have "final (after_loop e i f s) = run_exit_trap (print_summary e w)" unfolding al by simp
    moreover have "tmps (print_summary e w) = tmps s" "trap (print_summary e w) = trap s"
      "fs (print_summary e w) = fs s10"
      "filter is_installing (out (print_summary e w)) = filter is_installing (out s)"
      by (simp_all add: print_summary_frame frw)
    ultimately show ?thesis unfolding s10_def by blast
  next
    case none
    then have "final (after_loop e i f s) = run_exit_trap w" unfolding al by simp
    with frw show ?thesis unfolding s10_def by blast
  next
    case fine
    then have "final (after_loop e i f s) = run_exit_trap (print_summary e s10)" unfolding al by simp
    moreover have "tmps (print_summary e s10) = tmps s" "trap (print_summary e s10) = trap s"
      "fs (print_summary e s10) = fs s10"
      "filter is_installing (out (print_summary e s10)) = filter is_installing (out s)"
      by (simp_all add: print_summary_frame fr)
    ultimately show ?thesis unfolding s10_def by blast
  qed
qed

lemma main_unfold:
  assumes "has_curl e \<or> has_wget e" "has_tar e"
  shows "main e st =
    (let cmd = (if has_curl e then ''curl'' else ''wget'');
         st1 = st\<lparr>out := out st
                   @ [Echo [], Echo ''============================================'',
                      Echo ''       Centy Installer'',
                      Echo ''============================================'', Echo []]\<rparr>;
         st5 = say (Info (''Binaries to install: '' @ BINARIES e))
                 (say (Info (''Binaries directory: '' @ BIN_DIR e))
                    (say (Info (''Installation directory: '' @ INSTALL_DIR e)) st1));
         st7 = snd (subst (detect_os e) (snd (subst (detect_arch e) st5)));
         st8 = say (Echo []) (say (Info (''Platform: '' @ captured (detect_arch e) @ ''-'' @ captured (detect_os e))) st7);
         lp = install_loop e cmd (words (BINARIES e)) ([], [], st8)
     in after_loop e (fst lp) (fst (snd lp)) (snd (snd lp)))"
proof -
  have cr: "check_requirements e s = (Some (if has_curl e then ''curl'' else ''wget''), s)" for s
    using assms by (auto simp: check_requirements_def)
  show ?thesis
    by (simp only: main_def cr prod.case option.case Let_def split_beta subst_simps(1) fst_conv snd_conv)
qed



lemma main_via_loop:
  assumes req: "has_curl e \<or> has_wget e" "has_tar e"
  shows "\<exists>st8. tmps st8 = tmps st \<and> trap st8 = trap st \<and> next_tmp st8 = next_tmp st \<and> fs st8 = fs st
     \<and> filter is_installing (out st8) = filter is_installing (out st)
     \<and> main e st =
     (let lp = install_loop e (if has_curl e then ''curl'' else ''wget'') (words (BINARIES e)) ([], [], st8)
      in after_loop e (fst lp) (fst (snd lp)) (snd (snd lp)))"
proof -
  define st8 where "st8 = say (Echo []) (say (Info (''Platform: '' @ captured (detect_arch e) @ ''-'' @ captured (detect_os e)))
      (snd (subst (detect_os e) (snd (subst (detect_arch e)
        (say (Info (''Binaries to install: '' @ BINARIES e))
          (say (Info (''Binaries directory: '' @ BIN_DIR e))
            (say (Info (''Installation directory: '' @ INSTALL_DIR e))
              (st\<lparr>out := out st
                   @ [Echo [], Echo ''============================================'',
                      Echo ''       Centy Installer'',
                      Echo ''============================================'', Echo []]\<rparr>)))))))))"
  have "tmps st8 = tmps st \<and> trap st8 = trap st \<and> next_tmp st8 = next_tmp st \<and> fs st8 = fs st"
    by (simp add: st8_def say_simps subst_simps)
  moreover have "filter is_installing (out st8) = filter is_installing (out st)"
    by (auto simp: st8_def say_simps subst_simps sum_case_error_installing split: sum.splits)
  moreover have "main e st =
     (let lp = install_loop e (if has_curl e then ''curl'' else ''wget'') (words (BINARIES e)) ([], [], st8)
      in after_loop e (fst lp) (fst (snd lp)) (snd (snd lp)))"
    unfolding st8_def by (simp only: main_unfold [OF req] Let_def)
  ultimately show ?thesis by blast
qed



lemma resolve_version_given: "v0 \<noteq> [] \<Longrightarrow> resolve_version e cmd b v0 s = (Some v0, s)"
  by (simp add: resolve_version_def)

lemma place_binary_raw: "place_binary e b d ext False ip st = (True, mv_tmp d [b] (ip @ ''/'' @ b) st)"
  by (simp add: place_binary_def)

text \<open>The status of \<open>install_binary\<close> when the version is given and the archive is not published.\<close>

lemma install_binary_status_raw:
  assumes "v0 \<noteq> []"
    and "net e cmd (asset_url b (version_url v0)
           (b @ ''-'' @ version_url v0 @ ''-'' @ captured (detect_arch e) @ ''-'' @ captured (detect_os e)
              @ ''.'' @ get_archive_ext (captured (detect_os e)))) = None"
  shows "fst (install_binary e cmd b v0 st) =
     (if net e cmd (asset_url b (version_url v0) (b @ ''-'' @ captured (detect_os_legacy e) @ ''-'' @ captured (detect_arch e))) \<noteq> None
         \<or> (captured (detect_os_legacy e) = ''windows''
             \<and> net e cmd (asset_url b (version_url v0)
                   (b @ ''-'' @ captured (detect_os_legacy e) @ ''-'' @ captured (detect_arch e) @ ''.exe'')) \<noteq> None)
      then 0 else 1)"
proof -
  note rv = resolve_version_given [OF assms(1), of e cmd b "say (Info (''Installing '' @ b @ ''...'')) st"]
  show ?thesis
    using assms(2)
    by (simp add: install_binary_unfold [OF rv] Let_def download_formats_flags place_binary_raw)
qed

lemma linux_host_simps:
  "captured (detect_os (linux_host n)) = ''unknown-linux-gnu''"
  "captured (detect_os_legacy (linux_host n)) = ''linux''"
  "captured (detect_arch (linux_host n)) = ''x86_64''"
  "var_VERSION (linux_host n) = ''1.2.3''" "net (linux_host n) = n"
  "has_curl (linux_host n)" "has_tar (linux_host n)"
  "words (BINARIES (linux_host n)) = [''centy-daemon'', ''centy-tui'']"
  "can_write (linux_host n) q" "sh_redirect_status (linux_host n) = 2"
  by (simp_all add: linux_host_def detect_os_def detect_os_legacy_def detect_arch_def captured_def
        BINARIES_def DEFAULT_BINARIES_def words_def is_ifs_def)




text \<open>With a version given, every turn of the loop makes one temporary directory and sets the trap to it.\<close>

lemma install_loop_tmps:
  assumes "var_VERSION e \<noteq> []"
  shows "install_loop e cmd bs (i, f, st) = (i', f', st') \<Longrightarrow>
     next_tmp st' = next_tmp st + length bs
     \<and> (bs \<noteq> [] \<longrightarrow> trap st' = Some (next_tmp st + length bs - 1))
     \<and> (\<forall>d. (tmps st d \<noteq> None \<or> (next_tmp st \<le> d \<and> d < next_tmp st + length bs)) \<longrightarrow> tmps st' d \<noteq> None)"
proof (induction bs arbitrary: i f st)
  case Nil
  then show ?case by auto
next
  case (Cons b bs)
  obtain rc st1 where ib: "install_binary e cmd b (var_VERSION e) st = (rc, st1)"
    by (cases "install_binary e cmd b (var_VERSION e) st")
  from install_binary_tmps [OF ib] assms
  have t: "\<forall>d. tmps st d \<noteq> None \<longrightarrow> tmps st1 d \<noteq> None" "tmps st1 (next_tmp st) \<noteq> None"
    "trap st1 = Some (next_tmp st)" "next_tmp st1 = Suc (next_tmp st)"
    by simp_all
  from Cons.prems ib obtain i1 f1 where
    "install_loop e cmd bs (i1, f1, say (Echo []) st1) = (i', f', st')"
    by (cases "rc = 0") simp_all
  from Cons.IH [OF this]
  have IH: "next_tmp st' = Suc (next_tmp st) + length bs"
    "bs \<noteq> [] \<longrightarrow> trap st' = Some (Suc (next_tmp st) + length bs - 1)"
    "\<forall>d. (tmps st1 d \<noteq> None \<or> (Suc (next_tmp st) \<le> d \<and> d < Suc (next_tmp st) + length bs)) \<longrightarrow> tmps st' d \<noteq> None"
    and tr: "bs = [] \<longrightarrow> trap st' = trap st1"
    using \<open>install_loop e cmd bs (i1, f1, say (Echo []) st1) = (i', f', st')\<close>
    by (auto simp: say_simps t)
  show ?case
  proof (intro conjI allI impI)
    show "next_tmp st' = next_tmp st + length (b # bs)" using IH(1) by simp
    show "trap st' = Some (next_tmp st + length (b # bs) - 1)"
      using IH(2) tr t(3) by (cases "bs = []") simp_all
    fix d
    assume "tmps st d \<noteq> None \<or> (next_tmp st \<le> d \<and> d < next_tmp st + length (b # bs))"
    then have "tmps st1 d \<noteq> None \<or> (Suc (next_tmp st) \<le> d \<and> d < Suc (next_tmp st) + length bs)"
      using t(1,2) by (cases "d = next_tmp st") auto
    with IH(3) show "tmps st' d \<noteq> None" by blast
  qed
qed

text \<open>
  After the process has left, the temporary directory of every attempt but the last is
  still there; only the last one was removed by the EXIT trap.
\<close>

lemma main_tmps:
  assumes req: "has_curl e \<or> has_wget e" "has_tar e" and v: "var_VERSION e \<noteq> []"
    and bs: "2 \<le> length (words (BINARIES e))"
  shows "tmps (final (main e st)) (next_tmp st) \<noteq> None"
    and "tmps (final (main e st)) (next_tmp st + length (words (BINARIES e)) - 1) = None"
proof -
  from main_via_loop [OF req, of st] obtain st8 where
    st8: "tmps st8 = tmps st" "trap st8 = trap st" "next_tmp st8 = next_tmp st" and
    m: "main e st =
     (let lp = install_loop e (if has_curl e then ''curl'' else ''wget'') (words (BINARIES e)) ([], [], st8)
      in after_loop e (fst lp) (fst (snd lp)) (snd (snd lp)))"
    by blast
  define lp where "lp = install_loop e (if has_curl e then ''curl'' else ''wget'') (words (BINARIES e)) ([], [], st8)"
  have lp: "install_loop e (if has_curl e then ''curl'' else ''wget'') (words (BINARIES e)) ([], [], st8)
              = (fst lp, fst (snd lp), snd (snd lp))"
    by (simp add: lp_def)
  from bs have ne: "words (BINARIES e) \<noteq> []" by auto
  from install_loop_tmps [OF v lp] st8 ne
  have t9: "trap (snd (snd lp)) = Some (next_tmp st + length (words (BINARIES e)) - 1)"
    "tmps (snd (snd lp)) (next_tmp st) \<noteq> None"
    using bs by auto
  have "main e st = after_loop e (fst lp) (fst (snd lp)) (snd (snd lp))"
    unfolding lp_def by (simp only: m Let_def)
  with after_loop_final [of e "fst lp" "fst (snd lp)" "snd (snd lp)"]
  have f: "\<exists>x. final (main e st) = run_exit_trap x \<and> tmps x = tmps (snd (snd lp)) \<and> trap x = trap (snd (snd lp))"
    by auto
  then obtain x where x: "final (main e st) = run_exit_trap x" "tmps x = tmps (snd (snd lp))"
    "trap x = trap (snd (snd lp))" by blast
  from bs have "next_tmp st + length (words (BINARIES e)) - 1 \<noteq> next_tmp st" by simp
  with x t9 show "tmps (final (main e st)) (next_tmp st) \<noteq> None"
    by (simp add: run_exit_trap_def)
  from x t9 show "tmps (final (main e st)) (next_tmp st + length (words (BINARIES e)) - 1) = None"
    by (simp add: run_exit_trap_def)
qed

section \<open>Locating the binary in the extracted archive\<close>

lemma find_binary_None:
  "(find_binary fl b = None) = (filter (\<lambda>x. fst x \<noteq> [] \<and> last (fst x) = b) fl = [])"
  by (simp add: find_binary_def split: list.splits)

lemma find_binary_spec:
  "find_binary fl b =
     (case filter (\<lambda>x. fst x \<noteq> [] \<and> last (fst x) = b) fl of [] \<Rightarrow> None | x # xs \<Rightarrow> Some (fst x))"
  by (simp add: find_binary_def)

text \<open>
  C6, as stated, fails on the multi-format script: it has no step (b), so when the search
  lists another file of the binary's name before the one in the same-named directory, it
  takes that other file.
\<close>

theorem locate_binary_skips_subdirectory_step:
  "locate_binary [([''extras'', ''centy''], ''A''), ([''centy'', ''centy''], ''B'')] ''centy''
     \<noteq> locate_spec [([''extras'', ''centy''], ''A''), ([''centy'', ''centy''], ''B'')] ''centy''"
  by (simp add: locate_binary_def locate_spec_def find_binary_def)

text \<open>
  C6 (amended): the single-format script locates the binary exactly in the order (a),
  (b), (c). The multi-format script checks (a) and then takes the first file of that name
  in search order (c): (a) is preferred over everything else, a file in the same-named
  directory is found by the search but has no priority of its own, and the two orders agree
  whenever (a) applies or there is no file at (b). In both, when no file has the name the
  result is nothing, and the installation fails with "Could not find ... in extracted
  archive".
\<close>

theorem locate_binary_order:
  "locate_binary_v1 fl b = locate_spec fl b
   \<and> (map_of fl [b] \<noteq> None \<longrightarrow> locate_binary fl b = Some [b])
   \<and> (map_of fl [b] = None \<longrightarrow> locate_binary fl b = find_binary fl b)
   \<and> (map_of fl [b] \<noteq> None \<or> map_of fl [b, b] = None \<longrightarrow> locate_binary fl b = locate_spec fl b)
   \<and> ((locate_binary fl b = None) = (filter (\<lambda>x. fst x \<noteq> [] \<and> last (fst x) = b) fl = []))
   \<and> (extract_archive e [''download.'' @ ext] d ext (say (Info ''  Extracting...'') st) = (True, st2)
        \<and> locate_binary (case tmps st2 d of None \<Rightarrow> [] | Some fl \<Rightarrow> fl) b = None
      \<longrightarrow> place_binary e b d ext True ip st
            = (False, say (Error (''Could not find '' @ b @ '' in extracted archive'')) st2))"
proof (intro conjI impI)
  show "locate_binary_v1 fl b = locate_spec fl b"
    by (simp add: locate_binary_v1_def locate_spec_def find_binary_spec)
next
  assume "map_of fl [b] \<noteq> None"
  then show "locate_binary fl b = Some [b]"
    by (simp add: locate_binary_def)
next
  assume "map_of fl [b] = None"
  then show "locate_binary fl b = find_binary fl b"
    by (simp add: locate_binary_def)
next
  assume "map_of fl [b] \<noteq> None \<or> map_of fl [b, b] = None"
  then show "locate_binary fl b = locate_spec fl b"
    by (auto simp: locate_binary_def locate_spec_def find_binary_spec)
next
  have "map_of fl [b] \<noteq> None \<Longrightarrow> filter (\<lambda>x. fst x \<noteq> [] \<and> last (fst x) = b) fl \<noteq> []"
  proof -
    assume "map_of fl [b] \<noteq> None"
    then obtain c where "([b], c) \<in> set fl"
      by (auto dest: map_of_SomeD)
    then have "([b], c) \<in> set (filter (\<lambda>x. fst x \<noteq> [] \<and> last (fst x) = b) fl)"
      by simp
    then show ?thesis by (metis empty_iff empty_set)
  qed
  then show "(locate_binary fl b = None) = (filter (\<lambda>x. fst x \<noteq> [] \<and> last (fst x) = b) fl = [])"
    by (auto simp: locate_binary_def find_binary_None)
next
  assume "extract_archive e [''download.'' @ ext] d ext (say (Info ''  Extracting...'') st) = (True, st2)
        \<and> locate_binary (case tmps st2 d of None \<Rightarrow> [] | Some fl \<Rightarrow> fl) b = None"
  then show "place_binary e b d ext True ip st
            = (False, say (Error (''Could not find '' @ b @ '' in extracted archive'')) st2)"
    by (simp add: place_binary_def)
qed

theorem locate_binary_order_witness:
  "locate_binary_v1 [([''centy'', ''centy''], ''B'')] ''centy'' = locate_spec [([''centy'', ''centy''], ''B'')] ''centy''
   \<and> locate_binary [([''docs'', ''centy''], ''A''), ([''centy''], ''B'')] ''centy'' = Some [''centy'']
   \<and> locate_binary [([''README''], ''A''), ([''centy'', ''centy''], ''B'')] ''centy'' = Some [''centy'', ''centy'']
   \<and> locate_binary [([''README''], ''A'')] ''centy'' = None"
  using locate_binary_order [of "[([''centy'', ''centy''], ''B'')]" "''centy''"]
    locate_binary_order [of "[([''docs'', ''centy''], ''A''), ([''centy''], ''B'')]" "''centy''"]
    locate_binary_order [of "[([''README''], ''A''), ([''centy'', ''centy''], ''B'')]" "''centy''"]
    locate_binary_order [of "[([''README''], ''A'')]" "''centy''"]
  by (simp add: find_binary_def)

section \<open>Redirects in the Node installer\<close>

lemma httpsGet_chain_from:
  "length url \<le> n \<Longrightarrow> httpsGet (redirects n) url = Some (Inr ''payload'')"
proof (induction "n - length url" arbitrary: url)
  case 0
  then show ?case by (subst httpsGet.simps) (simp add: redirects_def)
next
  case (Suc k)
  then have "httpsGet (redirects n) (CHR ''r'' # url) = Some (Inr ''payload'')" by simp
  with Suc.hyps(2) show ?case by (subst httpsGet.simps) (simp add: redirects_def)
qed

lemma httpsGet_loop_aux:
  assumes "httpsGet srv u = Some r"
  shows "srv \<noteq> redirect_loop"
proof (rule httpsGet.raw_induct [where P = "\<lambda>s u r. s \<noteq> redirect_loop", OF _ assms])
  fix get :: "(string \<Rightarrow> response) \<Rightarrow> string \<Rightarrow> (js_error + string) option"
  fix s url y
  assume IH: "\<And>s u r. get s u = Some r \<Longrightarrow> s \<noteq> redirect_loop"
  assume eq: "(case s url of
        Response statusCode location body \<Rightarrow>
          if statusCode = 302 \<or> statusCode = 301
          then case location of
                 None \<Rightarrow>
                   (case s ''https://localhost/'' of
                      Response c l b \<Rightarrow> None
                    | RequestError msg \<Rightarrow> Some (Inl (Rejected msg)))
               | Some l \<Rightarrow> get s l
          else if statusCode \<noteq> 200
               then Some (Inl (HttpError statusCode url))
               else Some (Inr body)
        | RequestError msg \<Rightarrow> Some (Inl (Rejected msg))) = Some y"
  show "s \<noteq> redirect_loop"
  proof
    assume "s = redirect_loop"
    with eq have "get redirect_loop url = Some y"
      by (simp add: redirect_loop_def)
    with IH show False by blast
  qed
qed

lemma httpsGet_loop_never_settles: "httpsGet redirect_loop url = None"
  using httpsGet_loop_aux [of redirect_loop url] by (cases "httpsGet redirect_loop url") auto

lemma httpsGet_redirect:
  "srv url = Response code (Some l) body \<Longrightarrow> code = 301 \<or> code = 302
     \<Longrightarrow> httpsGet srv url = httpsGet srv l"
  by (subst httpsGet.simps) auto

lemma httpsGet_200: "srv url = Response 200 None body \<Longrightarrow> httpsGet srv url = Some (Inr body)"
  by (subst httpsGet.simps) simp

lemma httpsGet_error: "srv url = RequestError msg \<Longrightarrow> httpsGet srv url = Some (Inl (Rejected msg))"
  by (subst httpsGet.simps) simp

text \<open>
  C9, as stated, fails: no depth, however large, is one beyond which a chain of redirects
  is refused. A chain of any length is followed to its end.
\<close>

theorem httpsGet_no_depth_limit:
  "\<not> (\<exists>depth. \<forall>n > depth. \<exists>err. httpsGet (redirects n) [] = Some (Inl err))"
proof
  assume "\<exists>depth. \<forall>n > depth. \<exists>err. httpsGet (redirects n) [] = Some (Inl err)"
  then obtain depth where "\<forall>n > depth. \<exists>err. httpsGet (redirects n) [] = Some (Inl err)" ..
  then obtain err where "httpsGet (redirects (Suc depth)) [] = Some (Inl err)" by blast
  then show False by (simp add: httpsGet_chain_from)
qed

text \<open>
  C9 (amended): \<open>httpsGet\<close> follows HTTP 301 and 302 redirects transparently and without
  any limit on their number: the outcome of a redirected request is the outcome of the
  request to the location it names, a chain of any length is followed to the page at its
  end, and a chain that never ends is followed forever (the promise never settles; no
  error is raised for the depth).
\<close>

theorem httpsGet_follows_every_redirect:
  "(srv url = Response code (Some l) body \<and> (code = 301 \<or> code = 302)
      \<longrightarrow> httpsGet srv url = httpsGet srv l)
   \<and> httpsGet (redirects n) [] = Some (Inr ''payload'')
   \<and> httpsGet redirect_loop u = None"
  by (auto simp: httpsGet_chain_from httpsGet_loop_never_settles dest: httpsGet_redirect)

theorem httpsGet_follows_every_redirect_witness:
  "redirects 100 [] = Response 302 (Some ''r'') []
   \<and> httpsGet (redirects 100) [] = httpsGet (redirects 100) ''r''
   \<and> httpsGet (redirects 100) [] = Some (Inr ''payload'')
   \<and> httpsGet redirect_loop ''https://example.org/a'' = None"
proof -
  have r: "redirects 100 [] = Response 302 (Some ''r'') []"
    by (simp add: redirects_def)
  from httpsGet_follows_every_redirect [of "redirects 100" "[]" 302 "''r''" "[]" 100 "''https://example.org/a''"] r
  show ?thesis by auto
qed

section \<open>The bin wrapper without a binary\<close>

lemma main_until_await_supported:
  "getPlatform p a = Inr pf
     \<Longrightarrow> main_until_await p a = Awaiting [''https://api.github.com/repos/tupe12334/centy-installer/releases/latest'']"
  by (simp add: main_until_await_def REPO_def)

lemma main_until_await_unsupported:
  "getPlatform p a = Inl err \<Longrightarrow> main_until_await p a = Exited 1 (failed_lines err)"
  by (simp add: main_until_await_def)

text \<open>
  C10, as stated, fails where the installer does not support the platform: on Linux on
  a 32-bit ARM processor the installer's platform check throws before anything is awaited,
  and the process exits with status 1, not 0.
\<close>

theorem bin_wrapper_unsupported_platform_exits_1:
  "exit_status (bin_wrapper (no_binary_env ''linux'' ''arm'' release_server)) = 1"
  by (simp add: bin_wrapper_def no_binary_env_def main_until_await_def getPlatform_def)

text \<open>
  C10 (amended): if the centy binary does not exist beside the wrapper, the wrapper
  prints its notice and starts the installer. On a platform the installer supports
  (darwin, linux or win32 on x64 or arm64) it then exits at once with status 0: the
  request to the release index has been sent but no response is read, nothing is spawned,
  and the result is the same whatever the server would answer, so the status does not
  reflect whether the installation succeeds. On any other platform or architecture the
  installer itself prints its failure and exits with status 1 before the wrapper's exit.
\<close>

theorem bin_wrapper_without_binary:
  "\<not> binary_exists e \<longrightarrow>
     (case getPlatform (process_platform e) (process_arch e) of
        Inr pf \<Rightarrow>
          bin_wrapper e =
            \<lparr>exit_status = 0, stderr = [''centy binary not found. Running install...''],
             spawned = None,
             unanswered = [''https://api.github.com/repos/tupe12334/centy-installer/releases/latest'']\<rparr>
          \<and> bin_wrapper (e\<lparr>server := srv\<rparr>) = bin_wrapper e
      | Inl err \<Rightarrow>
          bin_wrapper e =
            \<lparr>exit_status = 1,
             stderr = ''centy binary not found. Running install...'' # failed_lines err,
             spawned = None, unanswered = []\<rparr>)"
  by (auto simp: bin_wrapper_def main_until_await_supported main_until_await_unsupported
           split: sum.splits)

lemma getPlatform_linux_x64: "getPlatform ''linux'' ''x64'' = Inr (''unknown-linux-gnu'', ''x86_64'', ''tar.gz'')"
  by (simp add: getPlatform_def)

lemma install_js_release_server:
  "install_js (no_binary_env ''linux'' ''x64'' release_server)
     = Some (0, [''Downloading centy v1.0.0 for x86_64-unknown-linux-gnu...'',
                 ''Successfully installed centy v1.0.0''])"
  by (simp add: install_js_def no_binary_env_def getPlatform_linux_x64
        httpsGet_200 [of release_server _ "''release''"] release_server_def BINARY_NAME_def)

lemma install_js_unreachable:
  "install_js (no_binary_env ''linux'' ''x64'' unreachable)
     = Some (1, failed_lines (Rejected ''getaddrinfo ENOTFOUND''))"
  by (simp add: install_js_def no_binary_env_def getPlatform_linux_x64
        httpsGet_error [of unreachable _ "''getaddrinfo ENOTFOUND''"] unreachable_def)

lemma install_js_redirect_loop:
  "install_js (no_binary_env ''linux'' ''x64'' redirect_loop) = None"
  by (simp add: install_js_def no_binary_env_def getPlatform_linux_x64 httpsGet_loop_never_settles)

theorem bin_wrapper_without_binary_witness:
  "install_js (no_binary_env ''linux'' ''x64'' release_server)
     = Some (0, [''Downloading centy v1.0.0 for x86_64-unknown-linux-gnu...'',
                 ''Successfully installed centy v1.0.0''])
   \<and> exit_status (bin_wrapper (no_binary_env ''linux'' ''x64'' release_server)) = 0
   \<and> install_js (no_binary_env ''linux'' ''x64'' unreachable)
       = Some (1, failed_lines (Rejected ''getaddrinfo ENOTFOUND''))
   \<and> exit_status (bin_wrapper (no_binary_env ''linux'' ''x64'' unreachable)) = 0
   \<and> install_js (no_binary_env ''linux'' ''x64'' redirect_loop) = None
   \<and> exit_status (bin_wrapper (no_binary_env ''linux'' ''x64'' redirect_loop)) = 0
   \<and> spawned (bin_wrapper (no_binary_env ''linux'' ''x64'' unreachable)) = None
   \<and> exit_status (bin_wrapper (no_binary_env ''freebsd'' ''x64'' release_server)) = 1"
proof -
  have nb: "\<not> binary_exists (no_binary_env p a srv)" for p a srv
    by (simp add: no_binary_env_def)
  have pf: "getPlatform (process_platform (no_binary_env ''linux'' ''x64'' srv)) (process_arch (no_binary_env ''linux'' ''x64'' srv))
              = Inr (''unknown-linux-gnu'', ''x86_64'', ''tar.gz'')" for srv
    by (simp add: no_binary_env_def getPlatform_linux_x64)
  have bsd: "getPlatform (process_platform (no_binary_env ''freebsd'' ''x64'' srv)) (process_arch (no_binary_env ''freebsd'' ''x64'' srv))
              = Inl (UnsupportedPlatform ''freebsd'')" for srv
    by (simp add: no_binary_env_def getPlatform_def)
  show ?thesis
    using bin_wrapper_without_binary [of "no_binary_env ''linux'' ''x64'' release_server" release_server]
      bin_wrapper_without_binary [of "no_binary_env ''linux'' ''x64'' unreachable" release_server]
      bin_wrapper_without_binary [of "no_binary_env ''linux'' ''x64'' redirect_loop" release_server]
      bin_wrapper_without_binary [of "no_binary_env ''freebsd'' ''x64'' release_server" release_server]
    by (simp add: nb pf bsd install_js_release_server install_js_unreachable install_js_redirect_loop)
qed

section \<open>The order of the download attempts\<close>

lemma install_binary_requests:
  assumes rv: "resolve_version e cmd b v0 (say (Info (''Installing '' @ b @ ''...'')) st) = (Some v1, st2)"
  shows "requests (snd (install_binary e cmd b v0 st)) =
     requests st2 @
     (if net e cmd (asset_url b (version_url v1)
           (b @ ''-'' @ version_url v1 @ ''-'' @ captured (detect_arch e) @ ''-'' @ captured (detect_os e)
              @ ''.'' @ get_archive_ext (captured (detect_os e)))) \<noteq> None
      then [asset_url b (version_url v1)
           (b @ ''-'' @ version_url v1 @ ''-'' @ captured (detect_arch e) @ ''-'' @ captured (detect_os e)
              @ ''.'' @ get_archive_ext (captured (detect_os e)))]
      else if net e cmd (asset_url b (version_url v1)
                 (b @ ''-'' @ captured (detect_os_legacy e) @ ''-'' @ captured (detect_arch e))) \<noteq> None
              \<or> captured (detect_os_legacy e) \<noteq> ''windows''
      then [asset_url b (version_url v1)
           (b @ ''-'' @ version_url v1 @ ''-'' @ captured (detect_arch e) @ ''-'' @ captured (detect_os e)
              @ ''.'' @ get_archive_ext (captured (detect_os e))),
            asset_url b (version_url v1)
                 (b @ ''-'' @ captured (detect_os_legacy e) @ ''-'' @ captured (detect_arch e))]
      else [asset_url b (version_url v1)
           (b @ ''-'' @ version_url v1 @ ''-'' @ captured (detect_arch e) @ ''-'' @ captured (detect_os e)
              @ ''.'' @ get_archive_ext (captured (detect_os e))),
            asset_url b (version_url v1)
                 (b @ ''-'' @ captured (detect_os_legacy e) @ ''-'' @ captured (detect_arch e)),
            asset_url b (version_url v1)
                 (b @ ''-'' @ captured (detect_os_legacy e) @ ''-'' @ captured (detect_arch e) @ ''.exe'')])"
proof -
  obtain rc st' where ib: "install_binary e cmd b v0 st = (rc, st')"
    by (cases "install_binary e cmd b v0 st")
  from install_binary_cases [OF ib] rv obtain st8 dl ia st9 where
      st8: "requests st8 = requests st2"
    and df: "download_formats e cmd b (version_url v1) (captured (detect_os e))
                (captured (detect_os_legacy e)) (captured (detect_arch e))
                (get_archive_ext (captured (detect_os e))) (next_tmp st2) st8 = ((dl, ia), st9)"
    and tail: "if \<not> dl then rc = 1
                 \<and> st' = say (Error (''Failed to download '' @ b @ '' (tried multiple URL formats)'')) st9
               else (\<exists>ok st10.
                  place_binary e b (next_tmp st2) (get_archive_ext (captured (detect_os e))) ia
                    (VERSIONS_DIR e @ ''/'' @ b @ ''/'' @ display_of e (version_url v1)) st9 = (ok, st10)
                  \<and> (if ok then rc = 0
                        \<and> st' = publish e b (display_of e (version_url v1))
                                 (VERSIONS_DIR e @ ''/'' @ b @ ''/'' @ display_of e (version_url v1)) st10
                      else rc = 1 \<and> st' = st10))"
    by auto
  have "requests st' = requests st9"
  proof (cases dl)
    case False
    with tail show ?thesis by (simp add: say_simps)
  next
    case True
    with tail obtain ok st10 where
      pb: "place_binary e b (next_tmp st2) (get_archive_ext (captured (detect_os e))) ia
             (VERSIONS_DIR e @ ''/'' @ b @ ''/'' @ display_of e (version_url v1)) st9 = (ok, st10)"
      and fin: "if ok then st' = publish e b (display_of e (version_url v1))
                                 (VERSIONS_DIR e @ ''/'' @ b @ ''/'' @ display_of e (version_url v1)) st10
                else st' = st10"
      by (auto split: if_splits)
    from place_binary_out [OF pb] fin show ?thesis
      by (cases ok) (simp_all add: publish_out)
  qed
  moreover from df have "st9 = snd (download_formats e cmd b (version_url v1) (captured (detect_os e))
                (captured (detect_os_legacy e)) (captured (detect_arch e))
                (get_archive_ext (captured (detect_os e))) (next_tmp st2) st8)"
    by simp
  ultimately have "requests (snd (install_binary e cmd b v0 st)) =
      requests (snd (download_formats e cmd b (version_url v1) (captured (detect_os e))
                (captured (detect_os_legacy e)) (captured (detect_arch e))
                (get_archive_ext (captured (detect_os e))) (next_tmp st2) st8))"
    using ib by simp
  then show ?thesis
    by (simp only: download_formats_requests st8)
qed

lemma install_binary_failed_download:
  assumes rv: "resolve_version e cmd b v0 (say (Info (''Installing '' @ b @ ''...'')) st) = (Some v1, st2)"
    and n1: "net e cmd (asset_url b (version_url v1)
           (b @ ''-'' @ version_url v1 @ ''-'' @ captured (detect_arch e) @ ''-'' @ captured (detect_os e)
              @ ''.'' @ get_archive_ext (captured (detect_os e)))) = None"
    and n2: "net e cmd (asset_url b (version_url v1)
                 (b @ ''-'' @ captured (detect_os_legacy e) @ ''-'' @ captured (detect_arch e))) = None"
    and n3: "captured (detect_os_legacy e) = ''windows'' \<longrightarrow>
             net e cmd (asset_url b (version_url v1)
                 (b @ ''-'' @ captured (detect_os_legacy e) @ ''-'' @ captured (detect_arch e) @ ''.exe'')) = None"
  shows "fst (install_binary e cmd b v0 st) = 1"
    and "out (snd (install_binary e cmd b v0 st)) =
           out st2 @ [Info (''  Version: '' @ version_display e v1)]
           @ (case detect_os e of Inl l \<Rightarrow> [l] | Inr s \<Rightarrow> [])
           @ (case detect_os_legacy e of Inl l \<Rightarrow> [l] | Inr s \<Rightarrow> [])
           @ (case detect_arch e of Inl l \<Rightarrow> [l] | Inr s \<Rightarrow> [])
           @ [Info (''  Trying: '' @ b @ ''-'' @ version_url v1 @ ''-'' @ captured (detect_arch e) @ ''-''
                      @ captured (detect_os e) @ ''.'' @ get_archive_ext (captured (detect_os e))),
              Info (''  Trying: '' @ b @ ''-'' @ captured (detect_os_legacy e) @ ''-'' @ captured (detect_arch e))]
           @ (if captured (detect_os_legacy e) = ''windows''
              then [Info (''  Trying: '' @ b @ ''-'' @ captured (detect_os_legacy e) @ ''-'' @ captured (detect_arch e) @ ''.exe'')]
              else [])
           @ [Error (''Failed to download '' @ b @ '' (tried multiple URL formats)'')]"
proof -
  obtain rc st' where ib: "install_binary e cmd b v0 st = (rc, st')"
    by (cases "install_binary e cmd b v0 st")
  from install_binary_cases [OF ib] rv obtain st8 dl ia st9 where
      st8: "out st8 = out st2 @ [Info (''  Version: '' @ display_of e (version_url v1))]
                @ (case detect_os e of Inl l \<Rightarrow> [l] | Inr s \<Rightarrow> [])
                @ (case detect_os_legacy e of Inl l \<Rightarrow> [l] | Inr s \<Rightarrow> [])
                @ (case detect_arch e of Inl l \<Rightarrow> [l] | Inr s \<Rightarrow> [])"
    and df: "download_formats e cmd b (version_url v1) (captured (detect_os e))
                (captured (detect_os_legacy e)) (captured (detect_arch e))
                (get_archive_ext (captured (detect_os e))) (next_tmp st2) st8 = ((dl, ia), st9)"
    and tail: "if \<not> dl then rc = 1
                 \<and> st' = say (Error (''Failed to download '' @ b @ '' (tried multiple URL formats)'')) st9
               else (\<exists>ok st10.
                  place_binary e b (next_tmp st2) (get_archive_ext (captured (detect_os e))) ia
                    (VERSIONS_DIR e @ ''/'' @ b @ ''/'' @ display_of e (version_url v1)) st9 = (ok, st10)
                  \<and> (if ok then rc = 0
                        \<and> st' = publish e b (display_of e (version_url v1))
                                 (VERSIONS_DIR e @ ''/'' @ b @ ''/'' @ display_of e (version_url v1)) st10
                      else rc = 1 \<and> st' = st10))"
    by auto
  from df have "(dl, ia) = fst (download_formats e cmd b (version_url v1) (captured (detect_os e))
                (captured (detect_os_legacy e)) (captured (detect_arch e))
                (get_archive_ext (captured (detect_os e))) (next_tmp st2) st8)"
    by simp
  also have "\<dots> = (False, False)"
    using n1 n2 n3 by (simp only: download_formats_flags) auto
  finally have dl: "\<not> dl" by simp
  with tail have r: "rc = 1" "st' = say (Error (''Failed to download '' @ b @ '' (tried multiple URL formats)'')) st9"
    by simp_all
  from df have "out st9 = out (snd (download_formats e cmd b (version_url v1) (captured (detect_os e))
                (captured (detect_os_legacy e)) (captured (detect_arch e))
                (get_archive_ext (captured (detect_os e))) (next_tmp st2) st8))"
    by simp
  also have "\<dots> = out st8 @
       [Info (''  Trying: '' @ b @ ''-'' @ version_url v1 @ ''-'' @ captured (detect_arch e) @ ''-''
                      @ captured (detect_os e) @ ''.'' @ get_archive_ext (captured (detect_os e))),
        Info (''  Trying: '' @ b @ ''-'' @ captured (detect_os_legacy e) @ ''-'' @ captured (detect_arch e))]
       @ (if captured (detect_os_legacy e) = ''windows''
          then [Info (''  Trying: '' @ b @ ''-'' @ captured (detect_os_legacy e) @ ''-'' @ captured (detect_arch e) @ ''.exe'')]
          else [])"
    using n1 n2 by (simp only: download_formats_out) auto
  finally have o9: "out st9 = out st8 @
       [Info (''  Trying: '' @ b @ ''-'' @ version_url v1 @ ''-'' @ captured (detect_arch e) @ ''-''
                      @ captured (detect_os e) @ ''.'' @ get_archive_ext (captured (detect_os e))),
        Info (''  Trying: '' @ b @ ''-'' @ captured (detect_os_legacy e) @ ''-'' @ captured (detect_arch e))]
       @ (if captured (detect_os_legacy e) = ''windows''
          then [Info (''  Trying: '' @ b @ ''-'' @ captured (detect_os_legacy e) @ ''-'' @ captured (detect_arch e) @ ''.exe'')]
          else [])" .
  from ib r show "fst (install_binary e cmd b v0 st) = 1" by simp
  from ib r o9 st8 show "out (snd (install_binary e cmd b v0 st)) =
           out st2 @ [Info (''  Version: '' @ version_display e v1)]
           @ (case detect_os e of Inl l \<Rightarrow> [l] | Inr s \<Rightarrow> [])
           @ (case detect_os_legacy e of Inl l \<Rightarrow> [l] | Inr s \<Rightarrow> [])
           @ (case detect_arch e of Inl l \<Rightarrow> [l] | Inr s \<Rightarrow> [])
           @ [Info (''  Trying: '' @ b @ ''-'' @ version_url v1 @ ''-'' @ captured (detect_arch e) @ ''-''
                      @ captured (detect_os e) @ ''.'' @ get_archive_ext (captured (detect_os e))),
              Info (''  Trying: '' @ b @ ''-'' @ captured (detect_os_legacy e) @ ''-'' @ captured (detect_arch e))]
           @ (if captured (detect_os_legacy e) = ''windows''
              then [Info (''  Trying: '' @ b @ ''-'' @ captured (detect_os_legacy e) @ ''-'' @ captured (detect_arch e) @ ''.exe'')]
              else [])
           @ [Error (''Failed to download '' @ b @ '' (tried multiple URL formats)'')]"
    by (simp add: say_simps version_display_def)
qed


lemma offline_attempt:
  "fst (install_binary (linux_host offline) ''curl'' ''centy-tui'' ''1.2.3'' empty_state) = 1"
  "out (snd (install_binary (linux_host offline) ''curl'' ''centy-tui'' ''1.2.3'' empty_state)) =
     [Info ''Installing centy-tui...'', Info ''  Version: 1.2.3'',
      Info ''  Trying: centy-tui-v1.2.3-x86_64-unknown-linux-gnu.tar.gz'',
      Info ''  Trying: centy-tui-linux-x86_64'',
      Error ''Failed to download centy-tui (tried multiple URL formats)'']"
  "requests (snd (install_binary (linux_host offline) ''curl'' ''centy-tui'' ''1.2.3'' empty_state)) =
     [''https://github.com/centy-io/centy-tui/releases/download/v1.2.3/centy-tui-v1.2.3-x86_64-unknown-linux-gnu.tar.gz'',
      ''https://github.com/centy-io/centy-tui/releases/download/v1.2.3/centy-tui-linux-x86_64'']"
proof -
  have rv: "resolve_version (linux_host offline) ''curl'' ''centy-tui'' ''1.2.3''
              (say (Info (''Installing '' @ ''centy-tui'' @ ''...'')) empty_state)
            = (Some ''1.2.3'', say (Info (''Installing '' @ ''centy-tui'' @ ''...'')) empty_state)"
    by (simp add: resolve_version_def)
  have os: "detect_os (linux_host offline) = Inr ''unknown-linux-gnu''"
    "detect_os_legacy (linux_host offline) = Inr ''linux''"
    "detect_arch (linux_host offline) = Inr ''x86_64''"
    by (simp_all add: linux_host_def detect_os_def detect_os_legacy_def detect_arch_def)
  have n: "net (linux_host offline) cmd u = None" for cmd u
    by (simp add: linux_host_simps offline_def)
  from install_binary_failed_download [OF rv n n] n
  show "fst (install_binary (linux_host offline) ''curl'' ''centy-tui'' ''1.2.3'' empty_state) = 1"
    and "out (snd (install_binary (linux_host offline) ''curl'' ''centy-tui'' ''1.2.3'' empty_state)) =
     [Info ''Installing centy-tui...'', Info ''  Version: 1.2.3'',
      Info ''  Trying: centy-tui-v1.2.3-x86_64-unknown-linux-gnu.tar.gz'',
      Info ''  Trying: centy-tui-linux-x86_64'',
      Error ''Failed to download centy-tui (tried multiple URL formats)'']"
    by (simp_all add: os captured_def linux_host_simps version_display_def display_of_plain
          version_url_def get_archive_ext_def say_simps empty_state_def)
  from install_binary_requests [OF rv]
  show "requests (snd (install_binary (linux_host offline) ''curl'' ''centy-tui'' ''1.2.3'' empty_state)) =
     [''https://github.com/centy-io/centy-tui/releases/download/v1.2.3/centy-tui-v1.2.3-x86_64-unknown-linux-gnu.tar.gz'',
      ''https://github.com/centy-io/centy-tui/releases/download/v1.2.3/centy-tui-linux-x86_64'']"
    by (simp add: offline_def linux_host_simps version_url_def get_archive_ext_def asset_url_def GITHUB_ORG_def
          say_simps empty_state_def)
qed

text \<open>
  C1, as stated, fails in its last part: when every download fails, the failure carries no
  list of URLs. The attempt returns status 1 after the one error line, which names the
  binary only; no line it prints holds any of the URLs it requested.
\<close>

theorem failed_download_carries_no_urls:
  "fst (install_binary (linux_host offline) ''curl'' ''centy-tui'' ''1.2.3'' empty_state) = 1
   \<and> last (out (snd (install_binary (linux_host offline) ''curl'' ''centy-tui'' ''1.2.3'' empty_state)))
       = Error ''Failed to download centy-tui (tried multiple URL formats)''
   \<and> \<not> list_ex (\<lambda>url. list_ex (\<lambda>l. contains url (line_text l))
            (out (snd (install_binary (linux_host offline) ''curl'' ''centy-tui'' ''1.2.3'' empty_state))))
        (requests (snd (install_binary (linux_host offline) ''curl'' ''centy-tui'' ''1.2.3'' empty_state)))"
  by (simp add: offline_attempt line_text_def)


text \<open>
  C1 (amended): the downloads of an installation attempt try the candidate URLs in the
  fixed order (1) archive \<^verbatim>\<open>{binary}-{version}-{arch}-{os}.{ext}\<close>, (2) raw binary
  \<^verbatim>\<open>{binary}-{os_legacy}-{arch}\<close>, (3) raw binary \<^verbatim>\<open>{binary}-{os_legacy}-{arch}.exe\<close>, the
  third only when the legacy OS is windows; they stop at the first download that
  succeeds, and only the first format is treated as an archive. When every attempt
  fails, the installation attempt returns status 1 after printing the one error line
  "Failed to download {binary} (tried multiple URL formats)"; the URLs tried are not part
  of the failure (the names tried were printed before, one "Trying:" line each).
\<close>

theorem download_formats_order:
  "fst (download_formats e cmd b v os osl ar ext d s) =
     (if net e cmd (asset_url b v (b @ ''-'' @ v @ ''-'' @ ar @ ''-'' @ os @ ''.'' @ ext)) \<noteq> None
      then (True, True)
      else if net e cmd (asset_url b v (b @ ''-'' @ osl @ ''-'' @ ar)) \<noteq> None then (True, False)
      else if osl = ''windows'' \<and> net e cmd (asset_url b v (b @ ''-'' @ osl @ ''-'' @ ar @ ''.exe'')) \<noteq> None
      then (True, False)
      else (False, False))
   \<and> requests (snd (download_formats e cmd b v os osl ar ext d s)) =
     requests s @
     (if net e cmd (asset_url b v (b @ ''-'' @ v @ ''-'' @ ar @ ''-'' @ os @ ''.'' @ ext)) \<noteq> None
      then [asset_url b v (b @ ''-'' @ v @ ''-'' @ ar @ ''-'' @ os @ ''.'' @ ext)]
      else if net e cmd (asset_url b v (b @ ''-'' @ osl @ ''-'' @ ar)) \<noteq> None \<or> osl \<noteq> ''windows''
      then [asset_url b v (b @ ''-'' @ v @ ''-'' @ ar @ ''-'' @ os @ ''.'' @ ext),
            asset_url b v (b @ ''-'' @ osl @ ''-'' @ ar)]
      else [asset_url b v (b @ ''-'' @ v @ ''-'' @ ar @ ''-'' @ os @ ''.'' @ ext),
            asset_url b v (b @ ''-'' @ osl @ ''-'' @ ar),
            asset_url b v (b @ ''-'' @ osl @ ''-'' @ ar @ ''.exe'')])
   \<and> (resolve_version e cmd b v0 (say (Info (''Installing '' @ b @ ''...'')) st) = (Some v1, st2)
        \<and> net e cmd (asset_url b (version_url v1)
             (b @ ''-'' @ version_url v1 @ ''-'' @ captured (detect_arch e) @ ''-'' @ captured (detect_os e)
                @ ''.'' @ get_archive_ext (captured (detect_os e)))) = None
        \<and> net e cmd (asset_url b (version_url v1)
             (b @ ''-'' @ captured (detect_os_legacy e) @ ''-'' @ captured (detect_arch e))) = None
        \<and> (captured (detect_os_legacy e) = ''windows'' \<longrightarrow>
             net e cmd (asset_url b (version_url v1)
               (b @ ''-'' @ captured (detect_os_legacy e) @ ''-'' @ captured (detect_arch e) @ ''.exe'')) = None)
      \<longrightarrow> fst (install_binary e cmd b v0 st) = 1
          \<and> last (out (snd (install_binary e cmd b v0 st)))
              = Error (''Failed to download '' @ b @ '' (tried multiple URL formats)'')
          \<and> requests (snd (install_binary e cmd b v0 st)) =
              requests st2 @
              [asset_url b (version_url v1)
                 (b @ ''-'' @ version_url v1 @ ''-'' @ captured (detect_arch e) @ ''-'' @ captured (detect_os e)
                    @ ''.'' @ get_archive_ext (captured (detect_os e))),
               asset_url b (version_url v1)
                 (b @ ''-'' @ captured (detect_os_legacy e) @ ''-'' @ captured (detect_arch e))]
              @ (if captured (detect_os_legacy e) = ''windows''
                 then [asset_url b (version_url v1)
                         (b @ ''-'' @ captured (detect_os_legacy e) @ ''-'' @ captured (detect_arch e) @ ''.exe'')]
                 else []))"
proof (intro conjI impI)
  show "fst (download_formats e cmd b v os osl ar ext d s) =
     (if net e cmd (asset_url b v (b @ ''-'' @ v @ ''-'' @ ar @ ''-'' @ os @ ''.'' @ ext)) \<noteq> None
      then (True, True)
      else if net e cmd (asset_url b v (b @ ''-'' @ osl @ ''-'' @ ar)) \<noteq> None then (True, False)
      else if osl = ''windows'' \<and> net e cmd (asset_url b v (b @ ''-'' @ osl @ ''-'' @ ar @ ''.exe'')) \<noteq> None
      then (True, False)
      else (False, False))"
    by (rule download_formats_flags)
next
  show "requests (snd (download_formats e cmd b v os osl ar ext d s)) =
     requests s @
     (if net e cmd (asset_url b v (b @ ''-'' @ v @ ''-'' @ ar @ ''-'' @ os @ ''.'' @ ext)) \<noteq> None
      then [asset_url b v (b @ ''-'' @ v @ ''-'' @ ar @ ''-'' @ os @ ''.'' @ ext)]
      else if net e cmd (asset_url b v (b @ ''-'' @ osl @ ''-'' @ ar)) \<noteq> None \<or> osl \<noteq> ''windows''
      then [asset_url b v (b @ ''-'' @ v @ ''-'' @ ar @ ''-'' @ os @ ''.'' @ ext),
            asset_url b v (b @ ''-'' @ osl @ ''-'' @ ar)]
      else [asset_url b v (b @ ''-'' @ v @ ''-'' @ ar @ ''-'' @ os @ ''.'' @ ext),
            asset_url b v (b @ ''-'' @ osl @ ''-'' @ ar),
            asset_url b v (b @ ''-'' @ osl @ ''-'' @ ar @ ''.exe'')])"
    by (rule download_formats_requests)
next
  assume h: "resolve_version e cmd b v0 (say (Info (''Installing '' @ b @ ''...'')) st) = (Some v1, st2)
        \<and> net e cmd (asset_url b (version_url v1)
             (b @ ''-'' @ version_url v1 @ ''-'' @ captured (detect_arch e) @ ''-'' @ captured (detect_os e)
                @ ''.'' @ get_archive_ext (captured (detect_os e)))) = None
        \<and> net e cmd (asset_url b (version_url v1)
             (b @ ''-'' @ captured (detect_os_legacy e) @ ''-'' @ captured (detect_arch e))) = None
        \<and> (captured (detect_os_legacy e) = ''windows'' \<longrightarrow>
             net e cmd (asset_url b (version_url v1)
               (b @ ''-'' @ captured (detect_os_legacy e) @ ''-'' @ captured (detect_arch e) @ ''.exe'')) = None)"
  then have rv: "resolve_version e cmd b v0 (say (Info (''Installing '' @ b @ ''...'')) st) = (Some v1, st2)"
    and n1: "net e cmd (asset_url b (version_url v1)
             (b @ ''-'' @ version_url v1 @ ''-'' @ captured (detect_arch e) @ ''-'' @ captured (detect_os e)
                @ ''.'' @ get_archive_ext (captured (detect_os e)))) = None"
    and n2: "net e cmd (asset_url b (version_url v1)
             (b @ ''-'' @ captured (detect_os_legacy e) @ ''-'' @ captured (detect_arch e))) = None"
    and n3: "captured (detect_os_legacy e) = ''windows'' \<longrightarrow>
             net e cmd (asset_url b (version_url v1)
               (b @ ''-'' @ captured (detect_os_legacy e) @ ''-'' @ captured (detect_arch e) @ ''.exe'')) = None"
    by simp_all
  note f = install_binary_failed_download [OF rv n1 n2 n3]
  show "fst (install_binary e cmd b v0 st) = 1" by (rule f(1))
  show "last (out (snd (install_binary e cmd b v0 st)))
              = Error (''Failed to download '' @ b @ '' (tried multiple URL formats)'')"
    by (simp only: f(2) append_assoc [symmetric] last_snoc)
  show "requests (snd (install_binary e cmd b v0 st)) =
              requests st2 @
              [asset_url b (version_url v1)
                 (b @ ''-'' @ version_url v1 @ ''-'' @ captured (detect_arch e) @ ''-'' @ captured (detect_os e)
                    @ ''.'' @ get_archive_ext (captured (detect_os e))),
               asset_url b (version_url v1)
                 (b @ ''-'' @ captured (detect_os_legacy e) @ ''-'' @ captured (detect_arch e))]
              @ (if captured (detect_os_legacy e) = ''windows''
                 then [asset_url b (version_url v1)
                         (b @ ''-'' @ captured (detect_os_legacy e) @ ''-'' @ captured (detect_arch e) @ ''.exe'')]
                 else [])"
    using n1 n2 by (simp only: install_binary_requests [OF rv]) auto
qed

theorem download_formats_order_witness:
  "fst (download_formats (linux_host tui_release) ''curl'' ''centy-tui'' ''v1.2.3'' ''unknown-linux-gnu''
          ''linux'' ''x86_64'' ''tar.gz'' 0 empty_state) = (True, False)
   \<and> requests (snd (download_formats (linux_host tui_release) ''curl'' ''centy-tui'' ''v1.2.3''
          ''unknown-linux-gnu'' ''linux'' ''x86_64'' ''tar.gz'' 0 empty_state)) =
       [''https://github.com/centy-io/centy-tui/releases/download/v1.2.3/centy-tui-v1.2.3-x86_64-unknown-linux-gnu.tar.gz'',
        ''https://github.com/centy-io/centy-tui/releases/download/v1.2.3/centy-tui-linux-x86_64'']
   \<and> fst (install_binary (linux_host offline) ''curl'' ''centy-tui'' ''1.2.3'' empty_state) = 1
   \<and> last (out (snd (install_binary (linux_host offline) ''curl'' ''centy-tui'' ''1.2.3'' empty_state)))
       = Error ''Failed to download centy-tui (tried multiple URL formats)''
   \<and> requests (snd (install_binary (linux_host offline) ''curl'' ''centy-tui'' ''1.2.3'' empty_state)) =
       [''https://github.com/centy-io/centy-tui/releases/download/v1.2.3/centy-tui-v1.2.3-x86_64-unknown-linux-gnu.tar.gz'',
        ''https://github.com/centy-io/centy-tui/releases/download/v1.2.3/centy-tui-linux-x86_64'']"
proof -
  have rv: "resolve_version (linux_host offline) ''curl'' ''centy-tui'' ''1.2.3''
              (say (Info (''Installing '' @ ''centy-tui'' @ ''...'')) empty_state)
            = (Some ''1.2.3'', say (Info (''Installing '' @ ''centy-tui'' @ ''...'')) empty_state)"
    by (simp add: resolve_version_def)
  have n: "net (linux_host offline) cmd u = None" for cmd u
    by (simp add: linux_host_simps offline_def)
  from download_formats_order [where e = "linux_host tui_release" and cmd = "''curl''" and b = "''centy-tui''"
      and v = "''v1.2.3''" and os = "''unknown-linux-gnu''" and osl = "''linux''" and ar = "''x86_64''"
      and ext = "''tar.gz''" and d = 0 and s = empty_state]
  have a: "fst (download_formats (linux_host tui_release) ''curl'' ''centy-tui'' ''v1.2.3'' ''unknown-linux-gnu''
          ''linux'' ''x86_64'' ''tar.gz'' 0 empty_state) = (True, False)
   \<and> requests (snd (download_formats (linux_host tui_release) ''curl'' ''centy-tui'' ''v1.2.3''
          ''unknown-linux-gnu'' ''linux'' ''x86_64'' ''tar.gz'' 0 empty_state)) =
       [''https://github.com/centy-io/centy-tui/releases/download/v1.2.3/centy-tui-v1.2.3-x86_64-unknown-linux-gnu.tar.gz'',
        ''https://github.com/centy-io/centy-tui/releases/download/v1.2.3/centy-tui-linux-x86_64'']"
    by (simp add: linux_host_simps tui_release_def asset_url_def GITHUB_ORG_def empty_state_def)
  from download_formats_order [where e = "linux_host offline" and cmd = "''curl''" and b = "''centy-tui''"
      and ?v0.0 = "''1.2.3''" and st = empty_state and ?v1.0 = "''1.2.3''"
      and ?st2.0 = "say (Info (''Installing '' @ ''centy-tui'' @ ''...'')) empty_state"] rv n
  have b: "fst (install_binary (linux_host offline) ''curl'' ''centy-tui'' ''1.2.3'' empty_state) = 1
   \<and> last (out (snd (install_binary (linux_host offline) ''curl'' ''centy-tui'' ''1.2.3'' empty_state)))
       = Error ''Failed to download centy-tui (tried multiple URL formats)''
   \<and> requests (snd (install_binary (linux_host offline) ''curl'' ''centy-tui'' ''1.2.3'' empty_state)) =
       [''https://github.com/centy-io/centy-tui/releases/download/v1.2.3/centy-tui-v1.2.3-x86_64-unknown-linux-gnu.tar.gz'',
        ''https://github.com/centy-io/centy-tui/releases/download/v1.2.3/centy-tui-linux-x86_64'']"
    by (simp add: linux_host_simps version_url_def get_archive_ext_def asset_url_def GITHUB_ORG_def
          say_simps empty_state_def)
  from a b show ?thesis by simp
qed

section \<open>The run as a whole: every binary is attempted, and the exit status\<close>













section \<open>Temporary directories\<close>

text \<open>
  C8 does not hold of the script. The EXIT trap belongs to the shell, not to the
  function: it runs once, when the process leaves, and each \<open>install_binary\<close> replaces
  the trap of the one before. With the default list of two binaries the temporary
  directory of the first attempt (number 0) is still there when the process has ended;
  only that of the last attempt (number 1) has been removed.
\<close>

theorem main_leaves_temporary_directory:
  "tmps (final (main (linux_host tui_release) empty_state)) 0 \<noteq> None
   \<and> tmps (final (main (linux_host tui_release) empty_state)) 1 = None"
  using main_tmps [of "linux_host tui_release" empty_state]
  by (simp add: linux_host_simps empty_state_def)

section \<open>The symlink and its target\<close>

lemma starts_with_append: "starts_with p s \<Longrightarrow> starts_with p (s @ t)"
  by (induction p s rule: starts_with.induct) auto

lemma follow_file: "f p = Some (File body x) \<Longrightarrow> follow f n p = Some (File body x)"
  by (cases n) simp_all

text \<open>
  What holds of the code: the link is made only on the success path, after the file is
  in place and executable, and with an absolute installation directory it leads to that
  file. A failed attempt leaves the file system as it was.
\<close>

lemma install_binary_publishes_after_placing:
  assumes "install_binary e cmd b v0 st = (rc, st')"
  shows "if rc = 0 then
           (\<exists>v1 body. (v0 \<noteq> [] \<longrightarrow> v1 = v0)
              \<and> fs st' (VERSIONS_DIR e @ ''/'' @ b @ ''/'' @ version_display e v1 @ ''/'' @ b) = Some (File body True)
              \<and> fs st' (BIN_DIR e @ ''/'' @ b)
                  = Some (Symlink (VERSIONS_DIR e @ ''/'' @ b @ ''/'' @ version_display e v1 @ ''/'' @ b))
              \<and> (starts_with ''/'' (INSTALL_DIR e) \<longrightarrow> links_to_executable (fs st') (BIN_DIR e @ ''/'' @ b)))
         else fs st' = fs st"
proof (cases "rc = 0")
  case False
  with install_binary_fs [OF assms] show ?thesis by simp
next
  case True
  with install_binary_fs [OF assms] obtain v1 body where v1: "v0 \<noteq> [] \<longrightarrow> v1 = v0"
    and f: "fs st' = (fs st)
                   (VERSIONS_DIR e @ ''/'' @ b @ ''/'' @ version_display e v1 @ ''/'' @ b := Some (File body True),
                    BIN_DIR e @ ''/'' @ b := Some (Symlink (VERSIONS_DIR e @ ''/'' @ b @ ''/'' @ version_display e v1 @ ''/'' @ b)))"
    by auto
  let ?bp = "VERSIONS_DIR e @ ''/'' @ b @ ''/'' @ version_display e v1 @ ''/'' @ b"
  let ?ln = "BIN_DIR e @ ''/'' @ b"
  have ne: "?bp \<noteq> ?ln"
    by (simp add: VERSIONS_DIR_def BIN_DIR_def)
  from f ne have bp: "fs st' ?bp = Some (File body True)" and ln: "fs st' ?ln = Some (Symlink ?bp)"
    by simp_all
  have "links_to_executable (fs st') ?ln" if abs: "starts_with ''/'' (INSTALL_DIR e)"
  proof -
    from abs have "starts_with ''/'' ?bp"
      by (simp add: VERSIONS_DIR_def starts_with_append)
    then have "link_dest ?ln ?bp = ?bp"
      by (simp add: link_dest_def)
    moreover have "follow (fs st') 40 ?ln = follow (fs st') 39 (link_dest ?ln ?bp)"
      using ln by (simp add: eval_nat_numeral)
    ultimately have "follow (fs st') 40 ?ln = Some (File body True)"
      using follow_file [of "fs st'" ?bp body True 39] bp by simp
    with ln show ?thesis
      by (simp add: links_to_executable_def is_link_def)
  qed
  with True v1 bp ln show ?thesis by auto
qed

text \<open>
  C4 does not hold of the script when the installation directory is a relative path: the
  text the link holds is then read from the directory of the link, where no such file is.
  With \<^verbatim>\<open>INSTALL_DIR=centy\<close> the attempt succeeds, the file is in place and executable, and
  the link \<^verbatim>\<open>centy/bin/centy-tui\<close> dangles.
\<close>

theorem relative_install_dir_dangling_symlink:
  "fst (install_binary ((linux_host tui_release)\<lparr>var_INSTALL_DIR := ''centy''\<rparr>) ''curl'' ''centy-tui'' ''1.2.3'' empty_state) = 0
   \<and> (\<exists>body. fs (snd (install_binary ((linux_host tui_release)\<lparr>var_INSTALL_DIR := ''centy''\<rparr>) ''curl'' ''centy-tui'' ''1.2.3'' empty_state))
         ''centy/versions/centy-tui/1.2.3/centy-tui'' = Some (File body True))
   \<and> fs (snd (install_binary ((linux_host tui_release)\<lparr>var_INSTALL_DIR := ''centy''\<rparr>) ''curl'' ''centy-tui'' ''1.2.3'' empty_state))
         ''centy/bin/centy-tui'' = Some (Symlink ''centy/versions/centy-tui/1.2.3/centy-tui'')
   \<and> link_dest ''centy/bin/centy-tui'' ''centy/versions/centy-tui/1.2.3/centy-tui''
        = ''centy/bin/centy/versions/centy-tui/1.2.3/centy-tui''
   \<and> fs (snd (install_binary ((linux_host tui_release)\<lparr>var_INSTALL_DIR := ''centy''\<rparr>) ''curl'' ''centy-tui'' ''1.2.3'' empty_state))
         ''centy/bin/centy/versions/centy-tui/1.2.3/centy-tui'' = None
   \<and> \<not> links_to_executable
          (fs (snd (install_binary ((linux_host tui_release)\<lparr>var_INSTALL_DIR := ''centy''\<rparr>) ''curl'' ''centy-tui'' ''1.2.3'' empty_state)))
          ''centy/bin/centy-tui''"
proof -
  let ?e = "(linux_host tui_release)\<lparr>var_INSTALL_DIR := ''centy''\<rparr>"
  obtain rc st' where ib: "install_binary ?e ''curl'' ''centy-tui'' ''1.2.3'' empty_state = (rc, st')"
    by (cases "install_binary ?e ''curl'' ''centy-tui'' ''1.2.3'' empty_state")
  have es: "captured (detect_os ?e) = ''unknown-linux-gnu''" "captured (detect_os_legacy ?e) = ''linux''"
    "captured (detect_arch ?e) = ''x86_64''" "net ?e = tui_release"
    "VERSIONS_DIR ?e = ''centy/versions''" "BIN_DIR ?e = ''centy/bin''"
    by (simp_all add: linux_host_def detect_os_def detect_os_legacy_def detect_arch_def captured_def
          VERSIONS_DIR_def BIN_DIR_def INSTALL_DIR_def)
  have "fst (install_binary ?e ''curl'' ''centy-tui'' ''1.2.3'' empty_state) = 0"
    by (simp add: install_binary_status_raw es version_url_def asset_url_def
        GITHUB_ORG_def get_archive_ext_def tui_release_def)
  with ib have rc: "rc = 0" by simp
  from install_binary_fs [OF ib] rc obtain body where
    f: "fs st' = (fs empty_state)
          (''centy/versions/centy-tui/1.2.3/centy-tui'' := Some (File body True),
           ''centy/bin/centy-tui'' := Some (Symlink ''centy/versions/centy-tui/1.2.3/centy-tui''))"
    by (auto simp: es version_display_def display_of_plain version_url_def)
  have bp: "fs st' ''centy/versions/centy-tui/1.2.3/centy-tui'' = Some (File body True)"
    and ln: "fs st' ''centy/bin/centy-tui'' = Some (Symlink ''centy/versions/centy-tui/1.2.3/centy-tui'')"
    and no: "fs st' ''centy/bin/centy/versions/centy-tui/1.2.3/centy-tui'' = None"
    by (simp_all add: f empty_state_def)
  have ld: "link_dest ''centy/bin/centy-tui'' ''centy/versions/centy-tui/1.2.3/centy-tui''
        = ''centy/bin/centy/versions/centy-tui/1.2.3/centy-tui''"
    by (simp add: link_dest_def)
  have "follow (fs st') 40 ''centy/bin/centy-tui''
          = follow (fs st') 39 ''centy/bin/centy/versions/centy-tui/1.2.3/centy-tui''"
    using ln ld by (simp add: eval_nat_numeral)
  also have "\<dots> = None"
    using no by (simp add: eval_nat_numeral)
  finally have "\<not> links_to_executable (fs st') ''centy/bin/centy-tui''"
    by (simp add: links_to_executable_def)
  with ib rc bp ln no ld show ?thesis by auto
qed

section \<open>PATH configuration run twice\<close>

text \<open>
  A pattern without the characters \<^verbatim>\<open>[ ] \ * ^ $\<close> and without a newline matches every
  line that holds its text.
\<close>

lemma bre_atom_plain:
  assumes "c \<noteq> CHR ''[''" "c \<noteq> CHR '']''" "c \<noteq> CHR 0x5C" "c \<noteq> CHR 0x0A"
  shows "bre_atom (c # s) = Some (if c = CHR ''.'' then Dot else Ch c, s)"
  using assms by (simp add: bre_atom_def bre_special_def)

lemma bre_items_plain:
  assumes "\<forall>c \<in> set p. c \<noteq> CHR ''['' \<and> c \<noteq> CHR '']'' \<and> c \<noteq> CHR 0x5C \<and> c \<noteq> CHR 0x0A \<and> c \<noteq> CHR ''*''"
  shows "bre_items p = Some (map (\<lambda>c. One (if c = CHR ''.'' then Dot else Ch c)) p)"
  using assms
proof (induction p)
  case Nil
  then show ?case by (simp add: bre_items.simps)
next
  case (Cons c p)
  then have c: "c \<noteq> CHR ''[''" "c \<noteq> CHR '']''" "c \<noteq> CHR 0x5C" "c \<noteq> CHR 0x0A"
    and IH: "bre_items p = Some (map (\<lambda>c. One (if c = CHR ''.'' then Dot else Ch c)) p)"
    by simp_all
  show ?case
  proof (cases p)
    case Nil
    then show ?thesis
      by (subst bre_items.simps) (simp add: bre_atom_plain [OF c])
  next
    case (Cons d r)
    with Cons.prems have "d \<noteq> CHR ''*''" by simp
    with Cons IH show ?thesis
      by (subst bre_items.simps) (simp add: bre_atom_plain [OF c])
  qed
qed

lemma bre_here_plain:
  "bre_here (map (\<lambda>c. One (if c = CHR ''.'' then Dot else Ch c)) p) False (p @ t)"
  by (induction p) simp_all

lemma bre_search_plain:
  "bre_search (map (\<lambda>c. One (if c = CHR ''.'' then Dot else Ch c)) p) False (pre @ p @ t)"
proof (induction pre)
  case Nil
  show ?case
    using bre_here_plain [of p t] by (cases "p @ t") simp_all
next
  case (Cons a pre)
  then show ?case by simp
qed

lemma lines_acc_later_line:
  "CHR 0x0A \<notin> set x \<Longrightarrow> x \<in> set (lines_acc l (a @ CHR 0x0A # x @ CHR 0x0A # r))"
proof (induction a arbitrary: l)
  case Nil
  then show ?case by (simp add: lines_acc_line)
next
  case (Cons c a)
  then show ?case by simp
qed

lemma grep_q_plain:
  assumes plain: "\<forall>c \<in> set p. c \<noteq> CHR ''['' \<and> c \<noteq> CHR '']'' \<and> c \<noteq> CHR 0x5C \<and> c \<noteq> CHR 0x0A
                      \<and> c \<noteq> CHR ''*'' \<and> c \<noteq> CHR ''^'' \<and> c \<noteq> CHR ''$''"
    and l: "l \<in> set (lines_of content)" and c: "l = pre @ p @ t"
  shows "grep_q e p content"
proof -
  have a: "(starts_with ''^'' p \<and> p \<noteq> []) = False"
    using plain by (cases p) auto
  have z: "(p \<noteq> [] \<and> last p = CHR ''$'') = False"
    using plain by (cases "p = []") (auto dest: last_in_set)
  have its: "bre_items p = Some (map (\<lambda>c. One (if c = CHR ''.'' then Dot else Ch c)) p)"
    using plain by (intro bre_items_plain) simp
  have "bre_parse p = Some (False, False, map (\<lambda>c. One (if c = CHR ''.'' then Dot else Ch c)) p)"
    unfolding bre_parse_def Let_def a if_False z its by simp
  moreover have "grep_line (False, False, map (\<lambda>c. One (if c = CHR ''.'' then Dot else Ch c)) p) l"
    by (simp add: grep_line_def c bre_search_plain)
  ultimately show ?thesis
    using l by (auto simp: grep_q_def list_ex_iff)
qed

text \<open>
  For such a bin directory the configuration step is idempotent on the file system: a
  second run in a row changes no file.
\<close>

lemma setup_path_twice_plain:
  assumes plain: "\<forall>c \<in> set (BIN_DIR e). c \<noteq> CHR ''['' \<and> c \<noteq> CHR '']'' \<and> c \<noteq> CHR 0x5C \<and> c \<noteq> CHR 0x0A
                      \<and> c \<noteq> CHR ''*'' \<and> c \<noteq> CHR ''^'' \<and> c \<noteq> CHR ''$''"
  shows "fs (snd (setup_path e (snd (setup_path e st)))) = fs (snd (setup_path e st))"
proof (cases "\<not> contains ('':'' @ BIN_DIR e @ '':'') ('':'' @ var_PATH e @ '':'')
              \<and> can_write e (config_file_of e (fs st))")
  case False
  have c: "config_file_of e (fs (snd (setup_path e st))) = config_file_of e (fs st)"
    by (rule setup_path_config_file)
  show ?thesis
  proof (cases "contains ('':'' @ BIN_DIR e @ '':'') ('':'' @ var_PATH e @ '':'')")
    case True
    then show ?thesis by (simp add: setup_path_def)
  next
    case p: False
    with False have "\<not> can_write e (config_file_of e (fs st))" by simp
    with c show ?thesis
      by (simp add: setup_path_fs [OF p])
  qed
next
  case True
  then have p: "\<not> contains ('':'' @ BIN_DIR e @ '':'') ('':'' @ var_PATH e @ '':'')"
    and w: "can_write e (config_file_of e (fs st))" by simp_all
  let ?cfg = "config_file_of e (fs st)"
  let ?line = "''export PATH='' @ dq @ ''${PATH}:'' @ BIN_DIR e @ dq"
  have nl: "CHR 0x0A \<notin> set ?line"
    using plain by (auto simp: dq_def)
  have cfg: "config_file_of e (fs (snd (setup_path e st))) = ?cfg"
    by (rule setup_path_config_file)
  have found: "\<exists>body x. fs (snd (setup_path e st)) ?cfg = Some (File body x) \<and> grep_q e (BIN_DIR e) body"
  proof (cases "fs st ?cfg")
    case None
    have "?line \<in> set (lines_of (?line @ nl))"
      using nl lines_acc_line [of ?line "[]" "[]"] by (simp add: lines_of_def nl_def)
    then have "grep_q e (BIN_DIR e) (?line @ nl)"
      by (rule grep_q_plain [OF plain, where pre = "''export PATH='' @ dq @ ''${PATH}:''" and t = dq]) simp
    with None w show ?thesis
      by (auto simp: setup_path_fs [OF p])
  next
    case (Some n)
    show ?thesis
    proof (cases n)
      case (Symlink t)
      have "?line \<in> set (lines_of (?line @ nl))"
        using nl lines_acc_line [of ?line "[]" "[]"] by (simp add: lines_of_def nl_def)
      then have "grep_q e (BIN_DIR e) (?line @ nl)"
        by (rule grep_q_plain [OF plain, where pre = "''export PATH='' @ dq @ ''${PATH}:''" and t = dq]) simp
      with Some Symlink w show ?thesis
        by (auto simp: setup_path_fs [OF p])
    next
      case (File body x)
      show ?thesis
      proof (cases "grep_q e (BIN_DIR e) body")
        case True
        with Some File w show ?thesis by (auto simp: setup_path_fs [OF p])
      next
        case nomatch: False
        have "?line \<in> set (lines_of ((body @ nl @ ''# Added by Centy installer'') @ nl @ ?line @ nl))"
          using lines_acc_later_line [OF nl, of "[]" "body @ nl @ ''# Added by Centy installer''" "[]"]
          by (simp add: lines_of_def nl_def)
        then have "grep_q e (BIN_DIR e) ((body @ nl @ ''# Added by Centy installer'') @ nl @ ?line @ nl)"
          by (rule grep_q_plain [OF plain, where pre = "''export PATH='' @ dq @ ''${PATH}:''" and t = dq]) simp
        with Some File nomatch w show ?thesis
          by (auto simp: setup_path_fs [OF p])
      qed
    qed
  qed
  then obtain body x where "fs (snd (setup_path e st)) ?cfg = Some (File body x)" "grep_q e (BIN_DIR e) body"
    by blast
  then show ?thesis
    by (simp add: setup_path_fs [OF p, of "snd (setup_path e st)"] cfg)
qed

lemma bracket_dir_simps:
  "BIN_DIR ((linux_host offline)\<lparr>var_INSTALL_DIR := ''/opt/[tools]/centy''\<rparr>) = ''/opt/[tools]/centy/bin''"
  "var_PATH ((linux_host offline)\<lparr>var_INSTALL_DIR := ''/opt/[tools]/centy''\<rparr>) = ''/usr/bin:/bin''"
  "config_file_of ((linux_host offline)\<lparr>var_INSTALL_DIR := ''/opt/[tools]/centy''\<rparr>) f = ''/home/u/.zshrc''"
  by (simp_all add: linux_host_def BIN_DIR_def INSTALL_DIR_def config_file_of_def basename_def)

lemma bracket_pattern:
  "bre_parse ''/opt/[tools]/centy/bin'' =
     Some (False, False,
       [One (Ch CHR ''/''), One (Ch CHR ''o''), One (Ch CHR ''p''), One (Ch CHR ''t''), One (Ch CHR ''/''),
        One (Set ''tools''), One (Ch CHR ''/''), One (Ch CHR ''c''), One (Ch CHR ''e''), One (Ch CHR ''n''),
        One (Ch CHR ''t''), One (Ch CHR ''y''), One (Ch CHR ''/''), One (Ch CHR ''b''), One (Ch CHR ''i''),
        One (Ch CHR ''n'')])"
  by (simp add: bre_parse_def bre_items.simps bre_atom_def bre_special_def Let_def)


lemma bracket_grep:
  "\<not> grep_q e ''/opt/[tools]/centy/bin''
       (''export PATH='' @ dq @ ''${PATH}:'' @ ''/opt/[tools]/centy/bin'' @ dq @ nl)"
  by (simp add: grep_q_def bracket_pattern lines_of_def dq_def nl_def grep_line_def)

text \<open>
  C7 does not hold of the script when the bin directory, read as a basic regular
  expression, does not match its own text. With \<^verbatim>\<open>INSTALL_DIR=/opt/[tools]/centy\<close> the first
  run creates \<^verbatim>\<open>~/.zshrc\<close> with the export line; \<^verbatim>\<open>grep -q\<close> in the second run looks for
  \<^verbatim>\<open>/opt/\<close>, one of the letters t, o, l, s, and \<^verbatim>\<open>/centy/bin\<close>, does not find it, and the
  three lines are appended again.
\<close>

theorem setup_path_twice_appends_again:
  "fst (setup_path ((linux_host offline)\<lparr>var_INSTALL_DIR := ''/opt/[tools]/centy''\<rparr>) empty_state) = None
   \<and> fs (snd (setup_path ((linux_host offline)\<lparr>var_INSTALL_DIR := ''/opt/[tools]/centy''\<rparr>) empty_state))
        ''/home/u/.zshrc''
     = Some (File (''export PATH='' @ dq @ ''${PATH}:/opt/[tools]/centy/bin'' @ dq @ nl) False)
   \<and> fst (setup_path ((linux_host offline)\<lparr>var_INSTALL_DIR := ''/opt/[tools]/centy''\<rparr>)
           (snd (setup_path ((linux_host offline)\<lparr>var_INSTALL_DIR := ''/opt/[tools]/centy''\<rparr>) empty_state)))
       = None
   \<and> fs (snd (setup_path ((linux_host offline)\<lparr>var_INSTALL_DIR := ''/opt/[tools]/centy''\<rparr>)
           (snd (setup_path ((linux_host offline)\<lparr>var_INSTALL_DIR := ''/opt/[tools]/centy''\<rparr>) empty_state))))
        ''/home/u/.zshrc''
     = Some (File (''export PATH='' @ dq @ ''${PATH}:/opt/[tools]/centy/bin'' @ dq @ nl
                   @ nl @ ''# Added by Centy installer'' @ nl
                   @ ''export PATH='' @ dq @ ''${PATH}:/opt/[tools]/centy/bin'' @ dq @ nl) False)"
proof -
  let ?e = "(linux_host offline)\<lparr>var_INSTALL_DIR := ''/opt/[tools]/centy''\<rparr>"
  have p: "\<not> contains ('':'' @ BIN_DIR ?e @ '':'') ('':'' @ var_PATH ?e @ '':'')"
    by (simp add: bracket_dir_simps)
  have w: "can_write (linux_host offline) q" for q
    by (simp add: linux_host_def)
  have 1: "fs (snd (setup_path ?e empty_state)) =
             (fs empty_state)(''/home/u/.zshrc'' :=
                Some (File (''export PATH='' @ dq @ ''${PATH}:'' @ ''/opt/[tools]/centy/bin'' @ dq @ nl) False))"
    by (simp add: setup_path_fs [OF p] bracket_dir_simps empty_state_def w)
  have 2: "fs (snd (setup_path ?e (snd (setup_path ?e empty_state)))) =
             (fs (snd (setup_path ?e empty_state)))(''/home/u/.zshrc'' :=
                Some (File ((''export PATH='' @ dq @ ''${PATH}:'' @ ''/opt/[tools]/centy/bin'' @ dq @ nl)
                   @ nl @ ''# Added by Centy installer'' @ nl
                   @ ''export PATH='' @ dq @ ''${PATH}:'' @ ''/opt/[tools]/centy/bin'' @ dq @ nl) False))"
    using bracket_grep [of ?e]
    by (simp add: setup_path_fs [OF p, of "snd (setup_path ?e empty_state)"] bracket_dir_simps 1 w)
  have 3: "fst (setup_path ?e s) = None" for s
    by (simp add: setup_path_left w)
  show ?thesis
    by (simp add: 1 2 3)
qed

section \<open>Version normalization\<close>

text \<open>
  What the hypotheses of the statement below leave out. In a version of several lines
  \<^verbatim>\<open>sed\<close> strips the marker on every line, and a version with a backslash is printed by
  \<^verbatim>\<open>echo\<close> as the shell at hand prints it.
\<close>

lemma version_display_every_line:
  "version_display (linux_host offline) (''1.0'' @ nl @ ''v2'') = ''1.0'' @ nl @ ''2''"
  by (simp add: version_display_def display_of_def sh_echo_def sed_s_v_def strip_newlines_def
        version_url_def lines_of_def nl_def)

lemma version_display_backslash:
  "CHR 0x5C \<in> set raw \<Longrightarrow>
     version_display e raw = strip_newlines (sed_s_v (echo_special e (version_url raw)))"
  by (auto simp: version_display_def display_of_def sh_echo_def version_url_def)

text \<open>
  C5, as stated, asks for idempotence. The code strips exactly one marker, so a raw
  version with two leading markers is normalized to a string that normalization changes
  again.
\<close>

theorem version_display_not_idempotent:
  "version_display (linux_host offline) (version_display (linux_host offline) ''vv1.2.3'')
     \<noteq> version_display (linux_host offline) ''vv1.2.3''"
  by (simp add: version_display_plain)

text \<open>
  C5 (amended): for a raw version of one line that holds no backslash, normalization
  returns a version that does not start with the marker unchanged; it removes exactly one
  character, the marker, from one that starts with it; so the normalized form is the raw
  form without one leading marker, and normalizing twice is normalizing once for every
  such raw version that does not start with two markers.
\<close>

theorem version_display_strips_one_marker:
  assumes "CHR 0x5C \<notin> set raw" and "CHR 0x0A \<notin> set raw"
  shows "(\<not> starts_with ''v'' raw \<longrightarrow> version_display e raw = raw)
   \<and> version_display e (''v'' @ raw) = raw
   \<and> version_display e raw = sed_strip_v raw
   \<and> (\<not> starts_with ''vv'' raw \<longrightarrow> version_display e (version_display e raw) = version_display e raw)"
proof (intro conjI impI)
  note d = version_display_plain [OF assms]
  show "version_display e raw = sed_strip_v raw" by (rule d)
  have v: "CHR 0x5C \<notin> set (''v'' @ raw)" "CHR 0x0A \<notin> set (''v'' @ raw)"
    using assms by simp_all
  show "version_display e (''v'' @ raw) = raw"
    using version_display_plain [OF v, of e] by simp
  have s: "CHR 0x5C \<notin> set (sed_strip_v raw)" "CHR 0x0A \<notin> set (sed_strip_v raw)"
    using assms sed_strip_v_set [of raw] by auto
  {
    assume "\<not> starts_with ''v'' raw"
    then show "version_display e raw = raw"
      using d by (cases raw) simp_all
  }
  {
    assume two: "\<not> starts_with ''vv'' raw"
    have "sed_strip_v (sed_strip_v raw) = sed_strip_v raw"
    proof (cases raw)
      case Nil
      then show ?thesis by simp
    next
      case (Cons c r)
      with two show ?thesis
        by (cases r) auto
    qed
    then show "version_display e (version_display e raw) = version_display e raw"
      by (simp add: d version_display_plain [OF s])
  }
qed

theorem version_display_strips_one_marker_witness:
  "CHR 0x5C \<notin> set ''1.2.3'' \<and> CHR 0x0A \<notin> set ''1.2.3''
   \<and> \<not> starts_with ''v'' ''1.2.3'' \<and> version_display (linux_host offline) ''1.2.3'' = ''1.2.3''
   \<and> version_display (linux_host offline) (''v'' @ ''1.2.3'') = ''1.2.3''
   \<and> CHR 0x5C \<notin> set ''v1.2.3'' \<and> CHR 0x0A \<notin> set ''v1.2.3''
   \<and> \<not> starts_with ''vv'' ''v1.2.3''
   \<and> version_display (linux_host offline) (version_display (linux_host offline) ''v1.2.3'')
        = version_display (linux_host offline) ''v1.2.3''"
  using version_display_strips_one_marker [of "''1.2.3''" "linux_host offline"]
    version_display_strips_one_marker [of "''v1.2.3''" "linux_host offline"]
  by simp

end
